theory Spec2Isabelle
  imports Complex_Main
begin

section \<open>The Python values the script computes with\<close>

subsection \<open>Exceptions\<close>

text \<open>
  The exceptions that can reach the batch driver. \<open>OtherException\<close> stands for any other
  subclass of \<open>Exception\<close> (an engine's failure, an \<open>OSError\<close> of \<open>os.makedirs\<close>), with
  its message. \<open>KeyboardInterrupt\<close> and \<open>SystemExit\<close> derive from \<open>BaseException\<close> only:
  a handler \<open>except Exception\<close> does not catch them.
\<close>

datatype py_exception =
    IndexError
  | KeyError
  | ValueError
  | OtherException string
  | KeyboardInterrupt
  | SystemExit

fun is_Exception :: "py_exception \<Rightarrow> bool" where
  "is_Exception KeyboardInterrupt = False"
| "is_Exception SystemExit = False"
| "is_Exception e = True"

subsection \<open>Floats\<close>

text \<open>
  A Python float is an IEEE 754 binary64 number: a finite value, kept here as the rational
  it denotes, an infinity or a NaN. Negative zero is not told apart from zero: the script
  only compares a float with \<open>0\<close> and prints floats that the guard \<open>> 0\<close> has let through.
\<close>

datatype pyfloat = Fin rat | PInf | NInf | NaN

definition powi_rat :: "int \<Rightarrow> int \<Rightarrow> rat" where
  "powi_rat b e = (if 0 \<le> e then of_int b ^ nat e else 1 / of_int b ^ nat (- e))"

text \<open>The number of base-\<open>b\<close> digits of a positive integer.\<close>

function int_digits :: "int \<Rightarrow> int \<Rightarrow> int" where
  "int_digits b n = (if 1 < b \<and> 0 < n then int_digits b (n div b) + 1 else 0)"
  by pat_completeness auto
termination
  by (relation "measure (\<lambda>(b, n). nat n)")
     (auto simp: pos_imp_zdiv_pos_iff intro!: int_div_less_self)

declare int_digits.simps [simp del]

text \<open>\<open>floor_log b x\<close> is the integer \<open>e\<close> with \<open>b ^ e \<le> x < b ^ (e + 1)\<close>, for \<open>x > 0\<close>.\<close>

definition floor_log :: "int \<Rightarrow> rat \<Rightarrow> int" where
  "floor_log b x =
     (let (p, q) = quotient_of x;
          e0 = int_digits b p - int_digits b q
      in if powi_rat b e0 \<le> x then e0 else e0 - 1)"

definition round_half_even :: "rat \<Rightarrow> int" where
  "round_half_even x =
     (let f = \<lfloor>x\<rfloor>; d = x - of_int f
      in if d < 1 / 2 then f else if 1 / 2 < d then f + 1
         else if even f then f else f + 1)"

text \<open>
  Rounding of an exact value to the nearest binary64 number, ties to even: 53 bits of
  mantissa, the smallest exponent \<open>- 1022\<close> (below it the spacing stays \<open>2 ^ - 1074\<close>),
  and an infinity from \<open>2 ^ 1024\<close> on. A float literal of the source denotes
  \<open>binary64\<close> of its decimal value.
\<close>

definition binary64 :: "rat \<Rightarrow> pyfloat" where
  "binary64 x =
     (if x = 0 then Fin 0
      else let a = \<bar>x\<bar>;
               e = max (floor_log 2 a) (- 1022);
               q = powi_rat 2 (e - 52);
               v = of_int (round_half_even (a / q)) * q
           in if e < 1023 then Fin (if 0 < x then v else - v)
              else if powi_rat 2 1024 \<le> v then (if 0 < x then PInf else NInf)
              else Fin (if 0 < x then v else - v))"

fun float_mul :: "pyfloat \<Rightarrow> pyfloat \<Rightarrow> pyfloat" where
  "float_mul (Fin a) (Fin b) = binary64 (a * b)"
| "float_mul NaN y = NaN"
| "float_mul x NaN = NaN"
| "float_mul (Fin a) PInf = (if a = 0 then NaN else if 0 < a then PInf else NInf)"
| "float_mul (Fin a) NInf = (if a = 0 then NaN else if 0 < a then NInf else PInf)"
| "float_mul PInf (Fin b) = (if b = 0 then NaN else if 0 < b then PInf else NInf)"
| "float_mul NInf (Fin b) = (if b = 0 then NaN else if 0 < b then NInf else PInf)"
| "float_mul PInf PInf = PInf"
| "float_mul PInf NInf = NInf"
| "float_mul NInf PInf = NInf"
| "float_mul NInf NInf = PInf"

fun float_add :: "pyfloat \<Rightarrow> pyfloat \<Rightarrow> pyfloat" where
  "float_add (Fin a) (Fin b) = binary64 (a + b)"
| "float_add NaN y = NaN"
| "float_add x NaN = NaN"
| "float_add PInf NInf = NaN"
| "float_add NInf PInf = NaN"
| "float_add PInf y = PInf"
| "float_add NInf y = NInf"
| "float_add (Fin a) y = y"

text \<open>The comparison \<open>x > 0\<close> of a float with the integer zero; false for a NaN.\<close>

fun float_gt_zero :: "pyfloat \<Rightarrow> bool" where
  "float_gt_zero (Fin r) = (0 < r)"
| "float_gt_zero PInf = True"
| "float_gt_zero NInf = False"
| "float_gt_zero NaN = False"

text \<open>
  \<open>round(x, 1)\<close> on a float: the exact value of \<open>x\<close> is rounded to one decimal place,
  ties to even, and the decimal is read back as a float; infinities and NaN round to
  themselves. (From \<open>2 ^ 52\<close> on every float is an integer and rounds to itself, so the
  \<open>OverflowError\<close> of rounding never arises with one decimal place.)
\<close>

definition py_round1 :: "pyfloat \<Rightarrow> pyfloat" where
  "py_round1 x =
     (case x of Fin r \<Rightarrow> binary64 (of_int (round_half_even (r * 10)) / 10) | _ \<Rightarrow> x)"

subsection \<open>Printing integers and floats\<close>

function str_digits :: "int \<Rightarrow> string" where
  "str_digits n =
     (if n < 10 then [char_of (48 + n)]
      else str_digits (n div 10) @ [char_of (48 + n mod 10)])"
  by pat_completeness auto
termination
  by (relation "measure nat") auto

declare str_digits.simps [simp del]

definition str_int :: "int \<Rightarrow> string" where
  "str_int i = (if i < 0 then ''-'' @ str_digits (- i) else str_digits i)"

text \<open>
  \<open>str\<close> of a float is its \<open>repr\<close>: the shortest decimal that reads back as the same
  float. \<open>repr_search a k m n\<close> tries \<open>n\<close>, \<open>n + 1\<close>, ... significant digits (the two
  \<open>n\<close>-digit decimals around \<open>a\<close>, the nearer first) and stops at 17, which always reads
  back; it returns the digits as an integer \<open>c\<close> with the exponent \<open>s\<close> of its last digit.
\<close>

fun repr_search :: "rat \<Rightarrow> int \<Rightarrow> nat \<Rightarrow> int \<Rightarrow> int \<times> int" where
  "repr_search a k 0 n = (round_half_even (a / powi_rat 10 (k - n + 1)), k - n + 1)"
| "repr_search a k (Suc m) n =
     (let s = k - n + 1;
          t = a / powi_rat 10 s;
          c1 = round_half_even t;
          c2 = (if c1 = \<lfloor>t\<rfloor> then c1 + 1 else c1 - 1)
      in if binary64 (of_int c1 * powi_rat 10 s) = Fin a then (c1, s)
         else if binary64 (of_int c2 * powi_rat 10 s) = Fin a then (c2, s)
         else repr_search a k m (n + 1))"

function strip_zeros :: "int \<Rightarrow> int \<Rightarrow> int \<times> int" where
  "strip_zeros c s =
     (if c \<noteq> 0 \<and> c mod 10 = 0 then strip_zeros (c div 10) (s + 1) else (c, s))"
  by pat_completeness auto
termination
  by (relation "measure (\<lambda>(c, s). nat \<bar>c\<bar>)") auto

declare strip_zeros.simps [simp del]

text \<open>
  The layout of \<open>repr\<close>: with the decimal point after \<open>decpt\<close> digits, exponent notation
  when \<open>decpt \<le> - 4\<close> or \<open>16 < decpt\<close>, else positional notation with at least one digit
  after the point.
\<close>

definition format_repr :: "string \<Rightarrow> int \<Rightarrow> string" where
  "format_repr ds decpt =
     (if decpt \<le> - 4 \<or> 16 < decpt then
        hd ds # (if tl ds = [] then [] else CHR ''.'' # tl ds) @ ''e'' @
        (let x = decpt - 1; xs = str_digits \<bar>x\<bar>
         in (if x < 0 then ''-'' else ''+'') @ (if length xs < 2 then CHR ''0'' # xs else xs))
      else if decpt \<le> 0 then ''0.'' @ replicate (nat (- decpt)) CHR ''0'' @ ds
      else if int (length ds) \<le> decpt
        then ds @ replicate (nat decpt - length ds) CHR ''0'' @ ''.0''
      else take (nat decpt) ds @ ''.'' @ drop (nat decpt) ds)"

definition float_repr :: "pyfloat \<Rightarrow> string" where
  "float_repr x =
     (case x of
        NaN \<Rightarrow> ''nan''
      | PInf \<Rightarrow> ''inf''
      | NInf \<Rightarrow> ''-inf''
      | Fin r \<Rightarrow>
          if r = 0 then ''0.0''
          else let a = \<bar>r\<bar>;
                   (c, s) = repr_search a (floor_log 10 a) 16 1;
                   (c', s') = strip_zeros c s;
                   ds = str_digits c'
               in (if r < 0 then ''-'' else '''') @ format_repr ds (int (length ds) + s'))"

subsection \<open>Strings and paths\<close>

text \<open>\<open>s.replace('_', '')\<close>: every underscore is dropped.\<close>

definition remove_underscores :: "string \<Rightarrow> string" where
  "remove_underscores s = filter (\<lambda>c. c \<noteq> CHR ''_'') s"

text \<open>
  \<open>template.format(spw=v)\<close>, for templates made of literal text, the doubled braces
  \<open>{{\<close> and \<open>}}\<close>, and the field \<open>{spw}\<close>; \<open>v\<close> is \<open>str\<close> of the value. The second
  argument is the text of the field being read, if any. A single brace is a
  \<open>ValueError\<close>; an empty or numbered field asks for a positional argument, of which
  there is none (\<open>IndexError\<close>); any other field raises \<open>KeyError\<close> here, as Python
  does for a name it was not given. Conversions, format specifications and attribute
  or index lookups inside a field are not modelled, and the catalog has none.
\<close>

definition positional_field :: "string \<Rightarrow> bool" where
  "positional_field f = list_all (\<lambda>c. c \<in> set ''0123456789'') f"

fun format_fields :: "string \<Rightarrow> string option \<Rightarrow> string \<Rightarrow> py_exception + string" where
  "format_fields v None [] = Inr []"
| "format_fields v (Some f) [] = Inl ValueError"
| "format_fields v (Some f) (c # cs) =
     (if c = CHR ''}'' then
        (if f = ''spw''
         then (case format_fields v None cs of Inl e \<Rightarrow> Inl e | Inr r \<Rightarrow> Inr (v @ r))
         else if positional_field f then Inl IndexError
         else Inl KeyError)
      else format_fields v (Some (f @ [c])) cs)"
| "format_fields v None [a] =
     (if a = CHR ''{'' \<or> a = CHR ''}'' then Inl ValueError else Inr [a])"
| "format_fields v None (a # b # cs) =
     (if (a = CHR ''{'' \<and> b = CHR ''{'') \<or> (a = CHR ''}'' \<and> b = CHR ''}'') then
        (case format_fields v None cs of Inl e \<Rightarrow> Inl e | Inr r \<Rightarrow> Inr (a # r))
      else if a = CHR ''{'' then format_fields v (Some []) (b # cs)
      else if a = CHR ''}'' then Inl ValueError
      else (case format_fields v None (b # cs) of Inl e \<Rightarrow> Inl e | Inr r \<Rightarrow> Inr (a # r)))"

definition format_spw :: "string \<Rightarrow> int \<Rightarrow> py_exception + string" where
  "format_spw template spw_value = format_fields (str_int spw_value) None template"

text \<open>
  \<open>os.path.join\<close> and \<open>os.path.basename\<close> of \<open>posixpath\<close> (the script's paths are POSIX
  paths): a component that starts with a slash replaces what came before it, and a
  slash is put between two components unless the first is empty or ends with one.
\<close>

definition join2 :: "string \<Rightarrow> string \<Rightarrow> string" where
  "join2 path b =
     (if b \<noteq> [] \<and> hd b = CHR ''/'' then b
      else if path = [] \<or> last path = CHR ''/'' then path @ b
      else path @ ''/'' @ b)"

definition os_path_join :: "string \<Rightarrow> string list \<Rightarrow> string" where
  "os_path_join a p = foldl join2 a p"

definition os_path_basename :: "string \<Rightarrow> string" where
  "os_path_basename p = rev (takeWhile (\<lambda>c. c \<noteq> CHR ''/'') (rev p))"

section \<open>Configuration\<close>

text \<open>
  The keyword dictionaries of the script have fixed keys and are records here; the
  prefixes keep the keys apart from constants of the library.
\<close>

record mask_params =
  m_inc :: pyfloat
  m_PA :: pyfloat
  m_mstar :: pyfloat
  m_dist :: pyfloat
  m_vlsr :: pyfloat
  m_dx0 :: pyfloat
  m_dy0 :: pyfloat
  m_nbeams :: pyfloat
  m_dV0 :: int
  m_dVq :: pyfloat

record tclean_common =
  deconvolver :: string
  scales :: "int list"
  specmode :: string
  start :: string
  nchan :: int
  outframe :: string
  interactive :: bool
  imsize :: "int list"
  cell :: string
  weighting :: string
  robust :: pyfloat
  uvtaper :: "string list"
  restoringbeam :: string

record line_config =
  spw :: int
  molecule :: string
  line_freq :: pyfloat
  restfreqs :: "pyfloat list"

record dataset_config =
  name :: string
  vis_template :: string
  width :: string
  lines :: "line_config list"

text \<open>The module's global variables.\<close>

record globals =
  MASK_PARAMS :: mask_params
  TCLEAN_COMMON_PARAMS :: tclean_common
  RMS_CHANNELS :: string
  RMS_MULTIPLIER :: pyfloat
  MAX_ITERATIONS :: int
  DATASETS :: "dataset_config list"

definition initial_MASK_PARAMS :: mask_params where
  "initial_MASK_PARAMS =
     \<lparr>m_inc = binary64 (591 / 10),
      m_PA = float_add (binary64 93) (binary64 180),
      m_mstar = binary64 (62 / 100),
      m_dist = binary64 145,
      m_vlsr = binary64 6445,
      m_dx0 = binary64 (65 / 10000),
      m_dy0 = binary64 (- (2573 / 10000)),
      m_nbeams = binary64 2,
      m_dV0 = 500,
      m_dVq = binary64 (- (5 / 10))\<rparr>"

definition initial_TCLEAN_COMMON_PARAMS :: tclean_common where
  "initial_TCLEAN_COMMON_PARAMS =
     \<lparr>deconvolver = ''multiscale'',
      scales = [0, 5, 10, 20],
      specmode = ''cube'',
      start = ''-3.0km/s'',
      nchan = 100,
      outframe = ''LSRK'',
      interactive = False,
      imsize = [500, 500],
      cell = ''0.03arcsec'',
      weighting = ''briggs'',
      robust = binary64 (5 / 10),
      uvtaper = [''0.05arcsec'', ''0.1483arcsec'', ''26deg''],
      restoringbeam = ''common''\<rparr>"

text \<open>The catalog \<open>DATASETS\<close>, its lines named by dataset and molecule.\<close>

definition line_N2H :: line_config where
  "line_N2H =
     \<lparr>spw = 0, molecule = ''N2H+'',
      line_freq = binary64 (2795117491 / 10000000),
      restfreqs = [binary64 (2795117491 / 10000000)]\<rparr>"

definition line_DCO :: line_config where
  "line_DCO =
     \<lparr>spw = 2, molecule = ''DCO+'',
      line_freq = binary64 (2881438583 / 10000000),
      restfreqs = [binary64 (2881438583 / 10000000)]\<rparr>"

definition line_H2CO :: line_config where
  "line_H2CO =
     \<lparr>spw = 6, molecule = ''H2CO'',
      line_freq = binary64 (290623405 / 1000000),
      restfreqs = [binary64 (290623405 / 1000000)]\<rparr>"

definition dataset_2013_SG2 :: dataset_config where
  "dataset_2013_SG2 =
     \<lparr>name = ''2013_SG2'',
      vis_template = ''AA_Tau_2013_SG2.spw{spw}.selfcal.ms.contsub_fit1'',
      width = ''0.3km/s'',
      lines = [line_N2H, line_DCO, line_H2CO]\<rparr>"

definition line_HCN :: line_config where
  "line_HCN =
     \<lparr>spw = 0, molecule = ''HCN'',
      line_freq = binary64 (2658864343 / 10000000),
      restfreqs =
        [binary64 (2658848912 / 10000000), binary64 (2658861886 / 10000000),
         binary64 (2658864339 / 10000000), binary64 (2658864343 / 10000000),
         binary64 (2658864999 / 10000000), binary64 (2658885221 / 10000000)]\<rparr>"

definition line_HCO :: line_config where
  "line_HCO =
     \<lparr>spw = 1, molecule = ''HCO+'',
      line_freq = binary64 (2675576259 / 10000000),
      restfreqs = [binary64 (2675576259 / 10000000)]\<rparr>"

definition dataset_2013_SG1 :: dataset_config where
  "dataset_2013_SG1 =
     \<lparr>name = ''2013_SG1'',
      vis_template = ''AA_Tau_2013_SG1.spw{spw}.selfcal.ms.contsub_fit1'',
      width = ''0.2km/s'',
      lines = [line_HCN, line_HCO]\<rparr>"

definition line_CN_SPW1 :: line_config where
  "line_CN_SPW1 =
     \<lparr>spw = 1, molecule = ''CN_SPW1'',
      line_freq = binary64 (34024777 / 100000),
      restfreqs =
        [binary64 (34024777 / 100000), binary64 (340248544 / 1000000),
         binary64 (3402617734 / 10000000), binary64 (340264949 / 1000000),
         binary64 (3402791201 / 10000000)]\<rparr>"

definition line_CN_SPW3 :: line_config where
  "line_CN_SPW3 =
     \<lparr>spw = 3, molecule = ''CN_SPW3'',
      line_freq = binary64 (3400315494 / 10000000),
      restfreqs =
        [binary64 (3400081263 / 10000000), binary64 (3400196255 / 10000000),
         binary64 (3400315494 / 10000000), binary64 (340035408 / 1000000)]\<rparr>"

definition line_C18O :: line_config where
  "line_C18O =
     \<lparr>spw = 5, molecule = ''C18O'',
      line_freq = binary64 (3293305525 / 10000000),
      restfreqs = [binary64 (3293305525 / 10000000)]\<rparr>"

definition line_13CO :: line_config where
  "line_13CO =
     \<lparr>spw = 6, molecule = ''13CO'',
      line_freq = binary64 (3305879653 / 10000000),
      restfreqs = [binary64 (3305879653 / 10000000)]\<rparr>"

definition dataset_2015_SG1 :: dataset_config where
  "dataset_2015_SG1 =
     \<lparr>name = ''2015_SG1'',
      vis_template = ''AA_Tau_2015_SG1.spw{spw}.selfcal.ms.contsub_fit1'',
      width = ''0.2km/s'',
      lines = [line_CN_SPW1, line_CN_SPW3, line_C18O, line_13CO]\<rparr>"

definition initial_globals :: globals where
  "initial_globals =
     \<lparr>MASK_PARAMS = initial_MASK_PARAMS,
      TCLEAN_COMMON_PARAMS = initial_TCLEAN_COMMON_PARAMS,
      RMS_CHANNELS = ''0~30'',
      RMS_MULTIPLIER = binary64 2,
      MAX_ITERATIONS = 50000,
      DATASETS = [dataset_2013_SG2, dataset_2013_SG1, dataset_2015_SG1]\<rparr>"

section \<open>The external engines and the state of a run\<close>

text \<open>
  What \<open>imstat\<close> returns: \<open>None\<close> for a value that is false and no dictionary, else
  the dictionary, as the list of its items; the script reads the key \<open>'rms'\<close> only,
  whose value is a sequence of numbers, taken to be Python floats. An empty dictionary
  is false as well.
\<close>

type_synonym stats = "(string \<times> pyfloat list) list option"

record tclean_args =
  t_vis :: string
  t_imagename :: string
  t_mask :: "string option"
  t_width :: string
  t_restfreq :: string
  t_threshold :: string
  t_niter :: int
  t_common :: tclean_common

text \<open>
  The calls that leave the script, with their arguments, and what came back. The log of
  a run is the sequence of both; it stands for everything the calls did to the files.
\<close>

datatype call =
    Tclean tclean_args
  | Make_mask string "pyfloat list" mask_params
  | Imstat string string
  | Os_path_exists string
  | Os_makedirs string
  | Exportfits string string bool bool
  | Print string

datatype response =
    Returned_None
  | Returned_bool bool
  | Returned_stats stats
  | Raised py_exception

type_synonym event = "call \<times> response"

text \<open>
  The engines are not part of the script. Each is a function of the log so far and of
  its arguments, so that an engine may behave in any way that depends on what happened
  before; it raises (\<open>Some e\<close>, \<open>Inl e\<close>) or returns.
\<close>

record engines =
  tclean :: "event list \<Rightarrow> tclean_args \<Rightarrow> py_exception option"
  make_mask :: "event list \<Rightarrow> string \<Rightarrow> pyfloat list \<Rightarrow> mask_params \<Rightarrow> py_exception option"
  imstat :: "event list \<Rightarrow> string \<Rightarrow> string \<Rightarrow> py_exception + stats"
  os_path_exists :: "event list \<Rightarrow> string \<Rightarrow> bool"
  os_makedirs :: "event list \<Rightarrow> string \<Rightarrow> py_exception option"
  exportfits :: "event list \<Rightarrow> string \<Rightarrow> string \<Rightarrow> bool \<Rightarrow> bool \<Rightarrow> py_exception option"

record state =
  globals_of :: globals
  log :: "event list"

text \<open>
  A piece of the script takes the state and returns the state it leaves, with its
  value or the exception it raised: what was done before a failure stays done.
\<close>

type_synonym 'a prog = "state \<Rightarrow> (py_exception + 'a) \<times> state"

definition return_value :: "'a \<Rightarrow> 'a prog" where
  "return_value a s = (Inr a, s)"

definition and_then :: "'a prog \<Rightarrow> ('a \<Rightarrow> 'b prog) \<Rightarrow> 'b prog" where
  "and_then m f s = (case m s of (Inl e, s') \<Rightarrow> (Inl e, s') | (Inr a, s') \<Rightarrow> f a s')"

definition read_global :: "(globals \<Rightarrow> 'a) \<Rightarrow> 'a prog" where
  "read_global field s = (Inr (field (globals_of s)), s)"

definition evaluate :: "py_exception + 'a \<Rightarrow> 'a prog" where
  "evaluate r s = (r, s)"

definition record_event :: "call \<Rightarrow> response \<Rightarrow> state \<Rightarrow> state" where
  "record_event c r s = s\<lparr>log := log s @ [(c, r)]\<rparr>"

definition call_unit :: "call \<Rightarrow> (event list \<Rightarrow> py_exception option) \<Rightarrow> unit prog" where
  "call_unit c engine s =
     (case engine (log s) of
        Some e \<Rightarrow> (Inl e, record_event c (Raised e) s)
      | None \<Rightarrow> (Inr (), record_event c Returned_None s))"

definition call_tclean :: "engines \<Rightarrow> tclean_args \<Rightarrow> unit prog" where
  "call_tclean E a = call_unit (Tclean a) (\<lambda>h. tclean E h a)"

definition call_make_mask :: "engines \<Rightarrow> string \<Rightarrow> pyfloat list \<Rightarrow> mask_params \<Rightarrow> unit prog" where
  "call_make_mask E img fs ps = call_unit (Make_mask img fs ps) (\<lambda>h. make_mask E h img fs ps)"

definition call_imstat :: "engines \<Rightarrow> string \<Rightarrow> string \<Rightarrow> stats prog" where
  "call_imstat E imagename chans s =
     (case imstat E (log s) imagename chans of
        Inl e \<Rightarrow> (Inl e, record_event (Imstat imagename chans) (Raised e) s)
      | Inr st \<Rightarrow> (Inr st, record_event (Imstat imagename chans) (Returned_stats st) s))"

definition call_os_path_exists :: "engines \<Rightarrow> string \<Rightarrow> bool prog" where
  "call_os_path_exists E p s =
     (let b = os_path_exists E (log s) p
      in (Inr b, record_event (Os_path_exists p) (Returned_bool b) s))"

definition call_os_makedirs :: "engines \<Rightarrow> string \<Rightarrow> unit prog" where
  "call_os_makedirs E p = call_unit (Os_makedirs p) (\<lambda>h. os_makedirs E h p)"

definition call_exportfits :: "engines \<Rightarrow> string \<Rightarrow> string \<Rightarrow> bool \<Rightarrow> bool \<Rightarrow> unit prog" where
  "call_exportfits E imagename fitsimage overwrite dropstokes =
     call_unit (Exportfits imagename fitsimage overwrite dropstokes)
       (\<lambda>h. exportfits E h imagename fitsimage overwrite dropstokes)"

definition print :: "string \<Rightarrow> unit prog" where
  "print msg s = (Inr (), record_event (Print msg) Returned_None s)"

section \<open>The script\<close>

text \<open>
  The functions \<open>clean_line\<close> and \<open>main\<close>. (On import the module first loads the
  masking routine \<open>make_mask\<close> from a file of its own; here that routine is one of
  the engines.)
\<close>

text \<open>
  Step 3 of \<open>clean_line\<close>, from the value of \<open>RMS_MULTIPLIER\<close> and what \<open>imstat\<close>
  returned. The guard is \<open>stats and 'rms' in stats and stats['rms'][0] > 0\<close>, evaluated
  from the left: the index \<open>[0]\<close> is taken once the key is there, and raises
  \<open>IndexError\<close> on an empty sequence.
\<close>

definition threshold_str :: "pyfloat \<Rightarrow> stats \<Rightarrow> py_exception + string" where
  "threshold_str multiplier stats =
     (case stats of
        None \<Rightarrow> Inr ''10mJy''
      | Some d \<Rightarrow>
          if d = [] then Inr ''10mJy''
          else (case map_of d ''rms'' of
                  None \<Rightarrow> Inr ''10mJy''
                | Some [] \<Rightarrow> Inl IndexError
                | Some (rms_val # _) \<Rightarrow>
                    if float_gt_zero rms_val then
                      let threshold_val =
                            py_round1 (float_mul (float_mul (binary64 1000) multiplier) rms_val)
                      in Inr (float_repr threshold_val @ ''mJy'')
                    else Inr ''10mJy''))"

definition clean_line ::
  "engines \<Rightarrow> string \<Rightarrow> string \<Rightarrow> dataset_config \<Rightarrow> line_config \<Rightarrow> unit prog" where
  "clean_line E base_path output_path dataset_config line_config =
     (let dataset_name_short = remove_underscores (name dataset_config);
          contsub_dir =
            (if name dataset_config = ''2015_SG1'' then ''contsub_2015''
             else ''contsub_'' @ dataset_name_short);
          contsub_path = os_path_join base_path [contsub_dir]
      in
      and_then (evaluate (format_spw (vis_template dataset_config) (spw line_config)))
        (\<lambda>formatted.
      let vis_file = os_path_join contsub_path [formatted];
          output_prefix =
            os_path_join output_path [''AATau_'' @ molecule line_config @ ''_contsub''];
          clean0_imagename = output_prefix @ ''_clean0'';
          clean0_image = clean0_imagename @ ''.image'';
          clean1_imagename = output_prefix @ ''_clean1'';
          clean1_image = clean1_imagename @ ''.image'';
          mask_image = clean0_imagename @ ''.mask.image''
      in
      and_then (read_global TCLEAN_COMMON_PARAMS) (\<lambda>common0.
      and_then
        (call_tclean E
           \<lparr>t_vis = vis_file, t_imagename = clean0_imagename, t_mask = None,
            t_width = width dataset_config,
            t_restfreq = float_repr (line_freq line_config) @ ''GHz'',
            t_threshold = ''5mJy'', t_niter = 0, t_common = common0\<rparr>) (\<lambda>_.
      and_then (read_global MASK_PARAMS) (\<lambda>params.
      and_then
        (call_make_mask E clean0_image
           (map (\<lambda>freq. float_mul freq (binary64 (10 ^ 9))) (restfreqs line_config))
           params) (\<lambda>_.
      and_then (read_global RMS_CHANNELS) (\<lambda>chans.
      and_then (call_imstat E clean0_image chans) (\<lambda>stats.
      and_then (read_global RMS_MULTIPLIER) (\<lambda>multiplier.
      and_then (evaluate (threshold_str multiplier stats)) (\<lambda>threshold.
      and_then (read_global MAX_ITERATIONS) (\<lambda>max_iterations.
      and_then (read_global TCLEAN_COMMON_PARAMS) (\<lambda>common1.
      and_then
        (call_tclean E
           \<lparr>t_vis = vis_file, t_imagename = clean1_imagename, t_mask = Some mask_image,
            t_width = width dataset_config,
            t_restfreq = float_repr (line_freq line_config) @ ''GHz'',
            t_threshold = threshold, t_niter = max_iterations, t_common = common1\<rparr>) (\<lambda>_.
      let fits_dir = os_path_join base_path [''aatau-alma-analysis'', ''fits_products'']
      in
      and_then (call_os_path_exists E fits_dir) (\<lambda>present.
      and_then (if \<not> present then call_os_makedirs E fits_dir else return_value ()) (\<lambda>_.
      let fits_image_name =
            os_path_join fits_dir [os_path_basename clean1_imagename @ ''.fits'']
      in
      and_then (call_exportfits E clean1_image fits_image_name True True) (\<lambda>_.
      let fits_mask_name =
            os_path_join fits_dir [os_path_basename clean0_imagename @ ''.mask.fits'']
      in call_exportfits E mask_image fits_mask_name True True))))))))))))))))"

text \<open>
  The loops of \<open>main\<close>. The handler \<open>except Exception: continue\<close> goes on with the next
  line from the state the failed line left; an exception that is no instance of
  \<open>Exception\<close> leaves the loops.
\<close>

fun for_lines ::
  "engines \<Rightarrow> string \<Rightarrow> string \<Rightarrow> dataset_config \<Rightarrow> line_config list \<Rightarrow> unit prog" where
  "for_lines E base_path output_path dataset [] s = (Inr (), s)"
| "for_lines E base_path output_path dataset (line # rest) s =
     (case clean_line E base_path output_path dataset line s of
        (Inl e, s') \<Rightarrow>
          if is_Exception e then for_lines E base_path output_path dataset rest s'
          else (Inl e, s')
      | (Inr u, s') \<Rightarrow> for_lines E base_path output_path dataset rest s')"

fun for_datasets ::
  "engines \<Rightarrow> string \<Rightarrow> string \<Rightarrow> dataset_config list \<Rightarrow> unit prog" where
  "for_datasets E base_path output_path [] s = (Inr (), s)"
| "for_datasets E base_path output_path (dataset # rest) s =
     (case for_lines E base_path output_path dataset (lines dataset) s of
        (Inl e, s') \<Rightarrow> (Inl e, s')
      | (Inr u, s') \<Rightarrow> for_datasets E base_path output_path rest s')"

definition main :: "engines \<Rightarrow> unit prog" where
  "main E =
     (let base_path = ''/Users/jea/AATau'';
          output_path = os_path_join base_path [''aatau-alma-analysis'', ''casa_images'']
      in
      and_then (call_os_path_exists E output_path) (\<lambda>present.
      and_then (if \<not> present then call_os_makedirs E output_path else return_value ()) (\<lambda>_.
      and_then (read_global DATASETS) (\<lambda>datasets.
      and_then (for_datasets E base_path output_path datasets) (\<lambda>_.
      and_then (print (CHR 0x0A # replicate 80 CHR ''='')) (\<lambda>_.
      and_then (print ''ALL CLEANING COMPLETE'') (\<lambda>_.
      and_then (print (replicate 80 CHR ''='')) (\<lambda>_.
      and_then (print (CHR 0x0A # ''Output files located in:'')) (\<lambda>_.
      and_then (print (''  CASA images: '' @ output_path)) (\<lambda>_.
      and_then
        (print (''  FITS files: '' @
                os_path_join base_path [''aatau-alma-analysis'', ''fits_products''])) (\<lambda>_.
      print [])))))))))))"

text \<open>What a run of \<open>clean_line\<close> adds to the log.\<close>

definition new_events ::
  "engines \<Rightarrow> string \<Rightarrow> string \<Rightarrow> dataset_config \<Rightarrow> line_config \<Rightarrow> state \<Rightarrow> event list" where
  "new_events E base_path output_path dataset_config line_config s =
     drop (length (log s))
       (log (snd (clean_line E base_path output_path dataset_config line_config s)))"

section \<open>What a run of \<open>clean_line\<close> can look like\<close>

text \<open>
  The arguments of the calls of \<open>clean_line\<close>, named, for the globals \<open>g\<close>, the two
  directories, the dataset, the line, and the formatted name \<open>f\<close> of the visibility file.
\<close>

definition contsub_dir_of :: "dataset_config \<Rightarrow> string" where
  "contsub_dir_of ds =
     (if name ds = ''2015_SG1'' then ''contsub_2015''
      else ''contsub_'' @ remove_underscores (name ds))"

definition prefix_of :: "string \<Rightarrow> line_config \<Rightarrow> string" where
  "prefix_of out l = os_path_join out [''AATau_'' @ molecule l @ ''_contsub'']"

definition dirty_args ::
  "globals \<Rightarrow> string \<Rightarrow> string \<Rightarrow> dataset_config \<Rightarrow> line_config \<Rightarrow> string \<Rightarrow> tclean_args" where
  "dirty_args g b out ds l f =
     \<lparr>t_vis = os_path_join (os_path_join b [contsub_dir_of ds]) [f],
      t_imagename = prefix_of out l @ ''_clean0'', t_mask = None,
      t_width = width ds, t_restfreq = float_repr (line_freq l) @ ''GHz'',
      t_threshold = ''5mJy'', t_niter = 0, t_common = TCLEAN_COMMON_PARAMS g\<rparr>"

definition dirty_call ::
  "globals \<Rightarrow> string \<Rightarrow> string \<Rightarrow> dataset_config \<Rightarrow> line_config \<Rightarrow> string \<Rightarrow> call" where
  "dirty_call g b out ds l f = Tclean (dirty_args g b out ds l f)"

definition mask_call :: "globals \<Rightarrow> string \<Rightarrow> line_config \<Rightarrow> call" where
  "mask_call g out l =
     Make_mask (prefix_of out l @ ''_clean0.image'')
       (map (\<lambda>freq. float_mul freq (binary64 (10 ^ 9))) (restfreqs l)) (MASK_PARAMS g)"

definition imstat_call :: "globals \<Rightarrow> string \<Rightarrow> line_config \<Rightarrow> call" where
  "imstat_call g out l = Imstat (prefix_of out l @ ''_clean0.image'') (RMS_CHANNELS g)"

definition final_args ::
  "globals \<Rightarrow> string \<Rightarrow> string \<Rightarrow> dataset_config \<Rightarrow> line_config \<Rightarrow> string \<Rightarrow> string
    \<Rightarrow> tclean_args" where
  "final_args g b out ds l f thr =
     \<lparr>t_vis = os_path_join (os_path_join b [contsub_dir_of ds]) [f],
      t_imagename = prefix_of out l @ ''_clean1'',
      t_mask = Some (prefix_of out l @ ''_clean0.mask.image''),
      t_width = width ds, t_restfreq = float_repr (line_freq l) @ ''GHz'',
      t_threshold = thr, t_niter = MAX_ITERATIONS g, t_common = TCLEAN_COMMON_PARAMS g\<rparr>"

definition final_call ::
  "globals \<Rightarrow> string \<Rightarrow> string \<Rightarrow> dataset_config \<Rightarrow> line_config \<Rightarrow> string \<Rightarrow> string \<Rightarrow> call" where
  "final_call g b out ds l f thr = Tclean (final_args g b out ds l f thr)"

definition fits_dir_of :: "string \<Rightarrow> string" where
  "fits_dir_of b = os_path_join b [''aatau-alma-analysis'', ''fits_products'']"

definition export_image_call :: "string \<Rightarrow> string \<Rightarrow> line_config \<Rightarrow> call" where
  "export_image_call b out l =
     Exportfits (prefix_of out l @ ''_clean1.image'')
       (os_path_join (fits_dir_of b) [os_path_basename (prefix_of out l @ ''_clean1'') @ ''.fits''])
       True True"

definition export_mask_call :: "string \<Rightarrow> string \<Rightarrow> line_config \<Rightarrow> call" where
  "export_mask_call b out l =
     Exportfits (prefix_of out l @ ''_clean0.mask.image'')
       (os_path_join (fits_dir_of b)
          [os_path_basename (prefix_of out l @ ''_clean0'') @ ''.mask.fits''])
       True True"

text \<open>The events of a run up to the end of the final pass, and those of the export.\<close>

definition imaging_events ::
  "globals \<Rightarrow> string \<Rightarrow> string \<Rightarrow> dataset_config \<Rightarrow> line_config \<Rightarrow> string \<Rightarrow> stats \<Rightarrow> string
    \<Rightarrow> event list" where
  "imaging_events g b out ds l f st thr =
     [(dirty_call g b out ds l f, Returned_None),
      (mask_call g out l, Returned_None),
      (imstat_call g out l, Returned_stats st),
      (final_call g b out ds l f thr, Returned_None)]"

fun directory_events :: "string \<Rightarrow> bool \<Rightarrow> event list" where
  "directory_events b True = [(Os_path_exists (fits_dir_of b), Returned_bool True)]"
| "directory_events b False =
     [(Os_path_exists (fits_dir_of b), Returned_bool False),
      (Os_makedirs (fits_dir_of b), Returned_None)]"

text \<open>
  Every run of \<open>clean_line\<close> has one of these shapes: its result \<open>r\<close> and the events
  \<open>es\<close> it adds to the log, by the call that raised, if any.
\<close>

definition run_shape ::
  "globals \<Rightarrow> string \<Rightarrow> string \<Rightarrow> dataset_config \<Rightarrow> line_config
    \<Rightarrow> (py_exception + unit) \<Rightarrow> event list \<Rightarrow> bool" where
  "run_shape g b out ds l r es \<longleftrightarrow>
    (\<exists>e. format_spw (vis_template ds) (spw l) = Inl e \<and> r = Inl e \<and> es = [])
   \<or> (\<exists>f e. format_spw (vis_template ds) (spw l) = Inr f \<and> r = Inl e \<and>
         es = [(dirty_call g b out ds l f, Raised e)])
   \<or> (\<exists>f e. format_spw (vis_template ds) (spw l) = Inr f \<and> r = Inl e \<and>
         es = [(dirty_call g b out ds l f, Returned_None), (mask_call g out l, Raised e)])
   \<or> (\<exists>f e. format_spw (vis_template ds) (spw l) = Inr f \<and> r = Inl e \<and>
         es = [(dirty_call g b out ds l f, Returned_None),
               (mask_call g out l, Returned_None), (imstat_call g out l, Raised e)])
   \<or> (\<exists>f e st. format_spw (vis_template ds) (spw l) = Inr f \<and> r = Inl e \<and>
         threshold_str (RMS_MULTIPLIER g) st = Inl e \<and>
         es = [(dirty_call g b out ds l f, Returned_None),
               (mask_call g out l, Returned_None),
               (imstat_call g out l, Returned_stats st)])
   \<or> (\<exists>f e st thr. format_spw (vis_template ds) (spw l) = Inr f \<and> r = Inl e \<and>
         threshold_str (RMS_MULTIPLIER g) st = Inr thr \<and>
         es = [(dirty_call g b out ds l f, Returned_None),
               (mask_call g out l, Returned_None),
               (imstat_call g out l, Returned_stats st),
               (final_call g b out ds l f thr, Raised e)])
   \<or> (\<exists>f e st thr. format_spw (vis_template ds) (spw l) = Inr f \<and> r = Inl e \<and>
         threshold_str (RMS_MULTIPLIER g) st = Inr thr \<and>
         es = imaging_events g b out ds l f st thr @
              [(Os_path_exists (fits_dir_of b), Returned_bool False),
               (Os_makedirs (fits_dir_of b), Raised e)])
   \<or> (\<exists>f e st thr. format_spw (vis_template ds) (spw l) = Inr f \<and> r = Inl e \<and>
         threshold_str (RMS_MULTIPLIER g) st = Inr thr \<and>
         es = imaging_events g b out ds l f st thr @ directory_events b True @
              [(export_image_call b out l, Raised e)])
   \<or> (\<exists>f e st thr. format_spw (vis_template ds) (spw l) = Inr f \<and> r = Inl e \<and>
         threshold_str (RMS_MULTIPLIER g) st = Inr thr \<and>
         es = imaging_events g b out ds l f st thr @ directory_events b False @
              [(export_image_call b out l, Raised e)])
   \<or> (\<exists>f e st thr. format_spw (vis_template ds) (spw l) = Inr f \<and> r = Inl e \<and>
         threshold_str (RMS_MULTIPLIER g) st = Inr thr \<and>
         es = imaging_events g b out ds l f st thr @ directory_events b True @
              [(export_image_call b out l, Returned_None),
               (export_mask_call b out l, Raised e)])
   \<or> (\<exists>f e st thr. format_spw (vis_template ds) (spw l) = Inr f \<and> r = Inl e \<and>
         threshold_str (RMS_MULTIPLIER g) st = Inr thr \<and>
         es = imaging_events g b out ds l f st thr @ directory_events b False @
              [(export_image_call b out l, Returned_None),
               (export_mask_call b out l, Raised e)])
   \<or> (\<exists>f st thr. format_spw (vis_template ds) (spw l) = Inr f \<and> r = Inr () \<and>
         threshold_str (RMS_MULTIPLIER g) st = Inr thr \<and>
         es = imaging_events g b out ds l f st thr @ directory_events b True @
              [(export_image_call b out l, Returned_None),
               (export_mask_call b out l, Returned_None)])
   \<or> (\<exists>f st thr. format_spw (vis_template ds) (spw l) = Inr f \<and> r = Inr () \<and>
         threshold_str (RMS_MULTIPLIER g) st = Inr thr \<and>
         es = imaging_events g b out ds l f st thr @ directory_events b False @
              [(export_image_call b out l, Returned_None),
               (export_mask_call b out l, Returned_None)])"

subsection \<open>Reading a log\<close>

text \<open>The arguments of the \<open>tclean\<close> calls of a log, in order.\<close>

fun tclean_of :: "event \<Rightarrow> tclean_args list" where
  "tclean_of (Tclean a, r) = [a]"
| "tclean_of e = []"

definition tclean_calls :: "event list \<Rightarrow> tclean_args list" where
  "tclean_calls es = concat (map tclean_of es)"

text \<open>The FITS files that the \<open>exportfits\<close> calls of a log name, in order.\<close>

fun fits_of :: "event \<Rightarrow> string list" where
  "fits_of (Exportfits img fits ov dr, r) = [fits]"
| "fits_of e = []"

definition exported_fits :: "event list \<Rightarrow> string list" where
  "exported_fits es = concat (map fits_of es)"

text \<open>
  The output paths a log names: the image names given to \<open>tclean\<close>, the mask image,
  the images given to the masking routine, to \<open>imstat\<close> and to \<open>exportfits\<close>, and the
  FITS files.
\<close>

fun paths_of :: "event \<Rightarrow> string list" where
  "paths_of (Tclean a, r) =
     t_imagename a # (case t_mask a of None \<Rightarrow> [] | Some m \<Rightarrow> [m])"
| "paths_of (Make_mask img fs ps, r) = [img]"
| "paths_of (Imstat img chans, r) = [img]"
| "paths_of (Exportfits img fits ov dr, r) = [img, fits]"
| "paths_of e = []"

definition output_paths :: "event list \<Rightarrow> string list" where
  "output_paths es = concat (map paths_of es)"

text \<open>
  The RMS that the statistics give: the first entry under \<open>'rms'\<close>, when the statistics
  are a dictionary that has one.
\<close>

definition first_rms :: "stats \<Rightarrow> pyfloat option" where
  "first_rms st =
     (case st of
        None \<Rightarrow> None
      | Some d \<Rightarrow> (case map_of d ''rms'' of Some (rms # rest) \<Rightarrow> Some rms | _ \<Rightarrow> None))"

subsection \<open>What holds after a piece of the script\<close>

text \<open>
  \<open>post m s Q\<close>: run from \<open>s\<close>, the piece \<open>m\<close> of the script leaves the globals as they
  are, adds some events \<open>es\<close> to the log, and its result and \<open>es\<close> satisfy \<open>Q\<close>. The rules
  below follow the script call by call; an engine may answer anything.
\<close>

definition post ::
  "'a prog \<Rightarrow> state \<Rightarrow> ((py_exception + 'a) \<Rightarrow> event list \<Rightarrow> bool) \<Rightarrow> bool" where
  "post m s Q \<longleftrightarrow>
     (\<exists>es. log (snd (m s)) = log s @ es \<and> globals_of (snd (m s)) = globals_of s \<and>
           Q (fst (m s)) es)"

subsection \<open>Simulated engines\<close>

text \<open>
  Engines for the scenarios: every call returns, the directories exist, and \<open>imstat\<close>
  returns the given statistics. \<open>mask_failing_engines\<close> differ in that the masking
  routine raises for every line.
\<close>

definition simulated_engines :: "stats \<Rightarrow> engines" where
  "simulated_engines st =
     \<lparr>tclean = (\<lambda>h a. None),
      make_mask = (\<lambda>h img fs ps. None),
      imstat = (\<lambda>h img chans. Inr st),
      os_path_exists = (\<lambda>h p. True),
      os_makedirs = (\<lambda>h p. None),
      exportfits = (\<lambda>h img fits overwrite dropstokes. None)\<rparr>"

definition mask_failing_engines :: engines where
  "mask_failing_engines =
     \<lparr>tclean = (\<lambda>h a. None),
      make_mask = (\<lambda>h img fs ps. Some (OtherException ''no mask'')),
      imstat = (\<lambda>h img chans. Inr None),
      os_path_exists = (\<lambda>h p. True),
      os_makedirs = (\<lambda>h p. None),
      exportfits = (\<lambda>h img fits overwrite dropstokes. None)\<rparr>"

definition initial_state :: state where
  "initial_state = \<lparr>globals_of = initial_globals, log = []\<rparr>"

subsection \<open>The batch\<close>

text \<open>
  Engines whose failures are all instances of \<open>Exception\<close>, and the pairs of dataset and
  line in the order in which \<open>main\<close> goes through the catalog.
\<close>

definition raises_only_Exception :: "engines \<Rightarrow> bool" where
  "raises_only_Exception E \<longleftrightarrow>
     (\<forall>h a e. tclean E h a = Some e \<longrightarrow> is_Exception e) \<and>
     (\<forall>h img fs ps e. make_mask E h img fs ps = Some e \<longrightarrow> is_Exception e) \<and>
     (\<forall>h img chans e. imstat E h img chans = Inl e \<longrightarrow> is_Exception e) \<and>
     (\<forall>h p e. os_makedirs E h p = Some e \<longrightarrow> is_Exception e) \<and>
     (\<forall>h img fits ov dr e. exportfits E h img fits ov dr = Some e \<longrightarrow> is_Exception e)"

definition catalog_order :: "dataset_config list \<Rightarrow> (dataset_config \<times> line_config) list" where
  "catalog_order datasets = concat (map (\<lambda>dataset. map (Pair dataset) (lines dataset)) datasets)"

section \<open>Reasoning about runs\<close>

lemma record_event_simps [simp]:
  "log (record_event c r s) = log s @ [(c, r)]"
  "globals_of (record_event c r s) = globals_of s"
  by (simp_all add: record_event_def)

lemma post_evaluate: "Q x [] \<Longrightarrow> post (evaluate x) s Q"
  by (simp add: post_def evaluate_def)

lemma post_return_value: "Q (Inr a) [] \<Longrightarrow> post (return_value a) s Q"
  by (simp add: post_def return_value_def)

lemma post_read_global: "Q (Inr (field (globals_of s))) [] \<Longrightarrow> post (read_global field) s Q"
  by (simp add: post_def read_global_def)

lemma post_call_unit:
  "(\<And>e. Q (Inl e) [(c, Raised e)]) \<Longrightarrow> Q (Inr ()) [(c, Returned_None)]
    \<Longrightarrow> post (call_unit c engine) s Q"
  by (simp add: post_def call_unit_def split: option.splits)

lemma post_call_imstat:
  "(\<And>e. Q (Inl e) [(Imstat im ch, Raised e)])
    \<Longrightarrow> (\<And>st. Q (Inr st) [(Imstat im ch, Returned_stats st)])
    \<Longrightarrow> post (call_imstat E im ch) s Q"
  by (simp add: post_def call_imstat_def split: sum.splits)

lemma post_call_os_path_exists:
  "(\<And>present. Q (Inr present) [(Os_path_exists p, Returned_bool present)])
    \<Longrightarrow> post (call_os_path_exists E p) s Q"
  by (simp add: post_def call_os_path_exists_def Let_def)

lemma post_print: "Q (Inr ()) [(Print msg, Returned_None)] \<Longrightarrow> post (print msg) s Q"
  by (simp add: post_def print_def)

lemma post_and_then:
  assumes "post m s (\<lambda>r es1. case r of
              Inl e \<Rightarrow> Q (Inl e) es1
            | Inr a \<Rightarrow> (\<forall>s'. globals_of s' = globals_of s \<longrightarrow>
                          post (f a) s' (\<lambda>r' es2. Q r' (es1 @ es2))))"
  shows "post (and_then m f) s Q"
proof -
  obtain r s1 where ms: "m s = (r, s1)" by (cases "m s")
  from assms ms obtain es1 where
    l1: "log s1 = log s @ es1" and g1: "globals_of s1 = globals_of s" and
    q1: "case r of
           Inl e \<Rightarrow> Q (Inl e) es1
         | Inr a \<Rightarrow> (\<forall>s'. globals_of s' = globals_of s \<longrightarrow>
                       post (f a) s' (\<lambda>r' es2. Q r' (es1 @ es2)))"
    unfolding post_def by auto
  show ?thesis
  proof (cases r)
    case (Inl e)
    with ms l1 g1 q1 show ?thesis by (auto simp: post_def and_then_def)
  next
    case (Inr a)
    with q1 l1 g1 have "post (f a) s1 (\<lambda>r' es2. Q r' (es1 @ es2))" by simp
    with ms Inr l1 g1 show ?thesis by (auto simp: post_def and_then_def)
  qed
qed

lemmas post_rules = post_and_then post_evaluate post_return_value post_read_global
  post_call_unit post_call_imstat post_call_os_path_exists post_print

lemma post_weaken: "post m s Q \<Longrightarrow> (\<And>r es. Q r es \<Longrightarrow> Q' r es) \<Longrightarrow> post m s Q'"
  by (auto simp: post_def)

lemmas call_defs = dirty_call_def dirty_args_def mask_call_def imstat_call_def
  final_call_def final_args_def export_image_call_def export_mask_call_def imaging_events_def
  contsub_dir_of_def prefix_of_def fits_dir_of_def

lemma clean_line_post:
  "post (clean_line E b out ds l) s (run_shape (globals_of s) b out ds l)"
  unfolding clean_line_def Let_def call_tclean_def call_make_mask_def call_os_makedirs_def
    call_exportfits_def
  by (auto intro!: post_rules simp: run_shape_def call_defs split: sum.splits)

lemma clean_line_log:
  "log (snd (clean_line E b out ds l s)) = log s @ new_events E b out ds l s"
  using clean_line_post [of E b out ds l s] by (auto simp: post_def new_events_def)

lemma clean_line_globals: "globals_of (snd (clean_line E b out ds l s)) = globals_of s"
  using clean_line_post [of E b out ds l s] by (auto simp: post_def)

lemma clean_line_run:
  "run_shape (globals_of s) b out ds l
     (fst (clean_line E b out ds l s)) (new_events E b out ds l s)"
  using clean_line_post [of E b out ds l s] by (auto simp: post_def new_events_def)

lemma for_lines_post: "post (for_lines E b out ds ls) s (\<lambda>r es. True)"
proof (induction ls arbitrary: s)
  case Nil
  show ?case by (simp add: post_def)
next
  case (Cons l ls)
  obtain r s1 where c: "clean_line E b out ds l s = (r, s1)"
    by (cases "clean_line E b out ds l s")
  from clean_line_log [of E b out ds l s] clean_line_globals [of E b out ds l s] c
  have s1: "log s1 = log s @ new_events E b out ds l s" "globals_of s1 = globals_of s"
    by simp_all
  from Cons.IH [of s1] s1 c show ?case
    by (cases r) (auto simp: post_def)
qed

lemma for_datasets_post: "post (for_datasets E b out dss) s (\<lambda>r es. True)"
proof (induction dss arbitrary: s)
  case Nil
  show ?case by (simp add: post_def)
next
  case (Cons ds dss)
  obtain r s1 where c: "for_lines E b out ds (lines ds) s = (r, s1)"
    by (cases "for_lines E b out ds (lines ds) s")
  from for_lines_post [of E b out ds "lines ds" s] c
  obtain es where s1: "log s1 = log s @ es" "globals_of s1 = globals_of s"
    by (auto simp: post_def)
  from Cons.IH [of s1] s1 c show ?case
    by (cases r) (auto simp: post_def)
qed

lemma post_for_datasets: "(\<And>r es. Q r es) \<Longrightarrow> post (for_datasets E b out dss) s Q"
  using for_datasets_post [of E b out dss s] by (auto simp: post_def)

lemma main_post: "post (main E) s (\<lambda>r es. True)"
  unfolding main_def Let_def call_os_makedirs_def
  by (auto intro!: post_rules post_for_datasets split: sum.splits)

lemma threshold_str_empty_rms:
  "map_of d ''rms'' = Some [] \<Longrightarrow> threshold_str m (Some d) = Inl IndexError"
  by (auto simp: threshold_str_def)

lemma threshold_str_raises: "threshold_str m st = Inl e \<Longrightarrow> e = IndexError"
  by (auto simp: threshold_str_def Let_def split: option.splits list.splits if_splits)

text \<open>
  Running the script against given engines: each call is answered and recorded in turn.
\<close>

lemma and_then_evaluate:
  "and_then (evaluate x) f s = (case x of Inl e \<Rightarrow> (Inl e, s) | Inr a \<Rightarrow> f a s)"
  by (simp add: and_then_def evaluate_def split: sum.splits)

lemma and_then_read_global: "and_then (read_global fld) f s = f (fld (globals_of s)) s"
  by (simp add: and_then_def read_global_def)

lemma and_then_return_value: "and_then (return_value a) f s = f a s"
  by (simp add: and_then_def return_value_def)

lemma and_then_call_unit:
  "and_then (call_unit c eng) f s =
     (case eng (log s) of
        Some e \<Rightarrow> (Inl e, record_event c (Raised e) s)
      | None \<Rightarrow> f () (record_event c Returned_None s))"
  by (simp add: and_then_def call_unit_def split: option.splits)

lemma and_then_call_imstat:
  "and_then (call_imstat E im ch) f s =
     (case imstat E (log s) im ch of
        Inl e \<Rightarrow> (Inl e, record_event (Imstat im ch) (Raised e) s)
      | Inr st \<Rightarrow> f st (record_event (Imstat im ch) (Returned_stats st) s))"
  by (simp add: and_then_def call_imstat_def split: sum.splits)

lemma and_then_call_os_path_exists:
  "and_then (call_os_path_exists E p) f s =
     f (os_path_exists E (log s) p)
       (record_event (Os_path_exists p) (Returned_bool (os_path_exists E (log s) p)) s)"
  by (simp add: and_then_def call_os_path_exists_def Let_def)

lemmas seq_simps = and_then_evaluate and_then_read_global and_then_return_value
  and_then_call_unit and_then_call_imstat and_then_call_os_path_exists
  call_tclean_def call_make_mask_def call_os_makedirs_def call_exportfits_def

lemma simulated_run:
  assumes "format_spw (vis_template ds) (spw l) = Inr f"
    and "threshold_str (RMS_MULTIPLIER (globals_of s)) st = Inr thr"
  shows "fst (clean_line (simulated_engines st) b out ds l s) = Inr ()"
    and "new_events (simulated_engines st) b out ds l s =
       imaging_events (globals_of s) b out ds l f st thr @ directory_events b True @
       [(export_image_call b out l, Returned_None), (export_mask_call b out l, Returned_None)]"
  using assms
  unfolding clean_line_def new_events_def Let_def
  by (simp_all add: seq_simps simulated_engines_def call_unit_def call_defs)

lemma simulated_run_threshold_raises:
  assumes "format_spw (vis_template ds) (spw l) = Inr f"
    and "threshold_str (RMS_MULTIPLIER (globals_of s)) st = Inl e"
  shows "fst (clean_line (simulated_engines st) b out ds l s) = Inl e"
    and "new_events (simulated_engines st) b out ds l s =
       [(dirty_call (globals_of s) b out ds l f, Returned_None),
        (mask_call (globals_of s) out l, Returned_None),
        (imstat_call (globals_of s) out l, Returned_stats st)]"
  using assms
  unfolding clean_line_def new_events_def Let_def
  by (simp_all add: seq_simps simulated_engines_def call_unit_def call_defs)

lemma mask_failing_run:
  assumes "format_spw (vis_template ds) (spw l) = Inr f"
  shows "fst (clean_line mask_failing_engines b out ds l s) = Inl (OtherException ''no mask'')"
    and "new_events mask_failing_engines b out ds l s =
       [(dirty_call (globals_of s) b out ds l f, Returned_None),
        (mask_call (globals_of s) out l, Raised (OtherException ''no mask''))]"
  using assms
  unfolding clean_line_def new_events_def Let_def
  by (simp_all add: seq_simps mask_failing_engines_def call_unit_def call_defs)

lemma format_N2H:
  "format_spw (vis_template dataset_2013_SG2) (spw line_N2H) =
     Inr ''AA_Tau_2013_SG2.spw0.selfcal.ms.contsub_fit1''"
  by code_simp

lemma format_HCN:
  "format_spw (vis_template dataset_2013_SG1) (spw line_HCN) =
     Inr ''AA_Tau_2013_SG1.spw0.selfcal.ms.contsub_fit1''"
  by code_simp

lemma format_C18O:
  "format_spw (vis_template dataset_2015_SG1) (spw line_C18O) =
     Inr ''AA_Tau_2015_SG1.spw5.selfcal.ms.contsub_fit1''"
  by code_simp

lemma initial_state_simps [simp]:
  "globals_of initial_state = initial_globals" "log initial_state = []"
  by (simp_all add: initial_state_def)

lemma initial_globals_simps [simp]:
  "MASK_PARAMS initial_globals = initial_MASK_PARAMS"
  "TCLEAN_COMMON_PARAMS initial_globals = initial_TCLEAN_COMMON_PARAMS"
  "RMS_CHANNELS initial_globals = ''0~30''"
  "RMS_MULTIPLIER initial_globals = binary64 2"
  "MAX_ITERATIONS initial_globals = 50000"
  "DATASETS initial_globals = [dataset_2013_SG2, dataset_2013_SG1, dataset_2015_SG1]"
  by (simp_all add: initial_globals_def)

subsection \<open>Facts about logs, floats and paths\<close>

lemma tclean_calls_simps [simp]:
  "tclean_calls [] = []"
  "tclean_calls (e # es) = tclean_of e @ tclean_calls es"
  "tclean_calls (es @ es') = tclean_calls es @ tclean_calls es'"
  by (simp_all add: tclean_calls_def)

lemma exported_fits_simps [simp]:
  "exported_fits [] = []"
  "exported_fits (e # es) = fits_of e @ exported_fits es"
  "exported_fits (es @ es') = exported_fits es @ exported_fits es'"
  by (simp_all add: exported_fits_def)

lemma output_paths_simps [simp]:
  "output_paths [] = []"
  "output_paths (e # es) = paths_of e @ output_paths es"
  "output_paths (es @ es') = output_paths es @ output_paths es'"
  by (simp_all add: output_paths_def)

lemmas shape_defs = dirty_call_def mask_call_def imstat_call_def final_call_def
  export_image_call_def export_mask_call_def imaging_events_def

lemma os_path_join_two: "os_path_join (os_path_join b [x]) [y] = os_path_join b [x, y]"
  by (simp add: os_path_join_def)

lemma binary64_2: "binary64 2 = Fin 2"
  by code_simp

lemma binary64_1000: "binary64 1000 = Fin 1000"
  by code_simp

lemma binary64_2000: "binary64 2000 = Fin 2000"
  by code_simp

lemma binary64_1e9: "binary64 1000000000 = Fin 1000000000"
  by code_simp

lemma float_mul_1000_2: "float_mul (binary64 1000) (Fin 2) = Fin 2000"
  by (simp add: binary64_1000 binary64_2000)

lemma threshold_str_value:
  assumes "threshold_str (Fin 2) st = Inr thr"
  shows "thr =
    (case first_rms st of
       Some rms \<Rightarrow>
         if float_gt_zero rms
         then float_repr (py_round1 (float_mul (Fin 2000) rms)) @ ''mJy''
         else ''10mJy''
     | None \<Rightarrow> ''10mJy'')"
  using assms
  by (auto simp: threshold_str_def first_rms_def Let_def float_mul_1000_2
      split: option.splits list.splits if_splits)

lemma final_pass_threshold:
  assumes "(Tclean a, r) \<in> set (new_events E b out ds l s)" and "t_mask a \<noteq> None"
  shows "\<exists>st.
      (Imstat (prefix_of out l @ ''_clean0.image'') (RMS_CHANNELS (globals_of s)),
       Returned_stats st) \<in> set (new_events E b out ds l s) \<and>
      threshold_str (RMS_MULTIPLIER (globals_of s)) st = Inr (t_threshold a) \<and>
      (\<forall>img ch st'. (Imstat img ch, Returned_stats st') \<in> set (new_events E b out ds l s)
          \<longrightarrow> st' = st)"
  using clean_line_run [of s b out ds l E] assms
  unfolding run_shape_def
  by (elim disjE exE conjE)
     (auto simp: shape_defs dirty_args_def final_args_def)

lemma threshold_value_0003:
  "float_repr (py_round1 (float_mul (Fin 2000) (binary64 (3 / 1000)))) = ''6.0''"
  by code_simp

lemma float_gt_zero_0003: "float_gt_zero (binary64 (3 / 1000))"
  by code_simp

lemma join2_append: "x \<noteq> [] \<Longrightarrow> join2 p x @ y = join2 p (x @ y)"
  by (simp add: join2_def)

lemma basename_join2:
  assumes "CHR ''/'' \<notin> set z"
  shows "os_path_basename (join2 p z) = z"
proof -
  have z: "takeWhile (\<lambda>c. c \<noteq> CHR ''/'') (rev z @ ys) = rev z @ takeWhile (\<lambda>c. c \<noteq> CHR ''/'') ys" for ys
    using assms by (intro takeWhile_append2) auto
  have e: "takeWhile (\<lambda>c. c \<noteq> CHR ''/'') (rev p) = []" if "p = [] \<or> last p = CHR ''/''"
    using that by (cases p rule: rev_cases) auto
  from assms have h: "\<not> (z \<noteq> [] \<and> hd z = CHR ''/'')" by (cases z) auto
  show ?thesis
    using h by (auto simp: os_path_basename_def join2_def z e)
qed

lemma basename_prefix:
  assumes "CHR ''/'' \<notin> set x" and "CHR ''/'' \<notin> set y" and "x \<noteq> []"
  shows "os_path_basename (os_path_join out [x] @ y) = x @ y"
  using assms basename_join2 [of "x @ y" out] by (simp add: os_path_join_def join2_append)

lemma threshold_str_None: "threshold_str m None = Inr ''10mJy''"
  by (simp add: threshold_str_def)

lemma threshold_str_0003:
  "threshold_str (binary64 2) (Some [(''rms'', [binary64 (3 / 1000)])]) = Inr ''6.0mJy''"
  by (simp add: threshold_str_def float_gt_zero_0003 binary64_2 float_mul_1000_2
      threshold_value_0003)

lemma threshold_str_zero:
  "threshold_str m (Some [(''rms'', [Fin 0])]) = Inr ''10mJy''"
  by (simp add: threshold_str_def)

lemma repr_N2H: "float_repr (line_freq line_N2H) = ''279.5117491''"
  by code_simp

lemmas path_eval = prefix_of_def fits_dir_of_def contsub_dir_of_def remove_underscores_def
  os_path_join_def join2_def os_path_basename_def

lemma run_N2H_0003:
  "fst (clean_line (simulated_engines (Some [(''rms'', [binary64 (3 / 1000)])])) b out
          dataset_2013_SG2 line_N2H initial_state) = Inr ()"
  "new_events (simulated_engines (Some [(''rms'', [binary64 (3 / 1000)])])) b out
      dataset_2013_SG2 line_N2H initial_state =
     imaging_events initial_globals b out dataset_2013_SG2 line_N2H
       ''AA_Tau_2013_SG2.spw0.selfcal.ms.contsub_fit1''
       (Some [(''rms'', [binary64 (3 / 1000)])]) ''6.0mJy'' @
     directory_events b True @
     [(export_image_call b out line_N2H, Returned_None),
      (export_mask_call b out line_N2H, Returned_None)]"
  using simulated_run [OF format_N2H, of initial_state
      "Some [(''rms'', [binary64 (3 / 1000)])]" "''6.0mJy''" b out]
  by (simp_all add: threshold_str_0003)

lemma threshold_str_quarter:
  "threshold_str (binary64 2) (Some [(''rms'', [Fin (1 / 4)])]) = Inr ''500.0mJy''"
  by code_simp

lemma completed_output_paths:
  assumes "fst (clean_line E b out ds l s) = Inr ()"
  shows "output_paths (new_events E b out ds l s) =
     [prefix_of out l @ ''_clean0'',
      prefix_of out l @ ''_clean0.image'',
      prefix_of out l @ ''_clean0.image'',
      prefix_of out l @ ''_clean1'',
      prefix_of out l @ ''_clean0.mask.image'',
      prefix_of out l @ ''_clean1.image'',
      os_path_join (fits_dir_of b) [os_path_basename (prefix_of out l @ ''_clean1'') @ ''.fits''],
      prefix_of out l @ ''_clean0.mask.image'',
      os_path_join (fits_dir_of b)
        [os_path_basename (prefix_of out l @ ''_clean0'') @ ''.mask.fits'']]"
  using clean_line_run [of s b out ds l E] assms
  unfolding run_shape_def
  by (elim disjE exE conjE)
     (simp_all add: shape_defs dirty_args_def final_args_def)

lemma exports_overwrite:
  assumes "(Exportfits img fits ov dr, r) \<in> set (new_events E b out ds l s)"
  shows "ov"
  using clean_line_run [of s b out ds l E] assms
  unfolding run_shape_def
  by (elim disjE exE conjE)
     (auto simp: shape_defs elim: directory_events.elims)

lemma run_N2H_None:
  "fst (clean_line (simulated_engines None) b out dataset_2013_SG2 line_N2H initial_state)
     = Inr ()"
  "new_events (simulated_engines None) b out dataset_2013_SG2 line_N2H initial_state =
     imaging_events initial_globals b out dataset_2013_SG2 line_N2H
       ''AA_Tau_2013_SG2.spw0.selfcal.ms.contsub_fit1'' None ''10mJy'' @
     directory_events b True @
     [(export_image_call b out line_N2H, Returned_None),
      (export_mask_call b out line_N2H, Returned_None)]"
  using simulated_run [OF format_N2H, of initial_state None "''10mJy''" b out]
  by (simp_all add: threshold_str_None)

subsection \<open>The loops of the batch\<close>

lemma format_fields_raises: "format_fields v m t = Inl e \<Longrightarrow> is_Exception e"
  by (induction v m t rule: format_fields.induct) (auto split: if_splits sum.splits)

lemma format_spw_raises: "format_spw t v = Inl e \<Longrightarrow> is_Exception e"
  by (auto simp: format_spw_def dest: format_fields_raises)

lemma post_call_unit_from:
  "(\<And>e h. engine h = Some e \<Longrightarrow> Q (Inl e) [(c, Raised e)]) \<Longrightarrow> Q (Inr ()) [(c, Returned_None)]
    \<Longrightarrow> post (call_unit c engine) s Q"
  by (simp add: post_def call_unit_def split: option.splits)

lemma post_call_imstat_from:
  "(\<And>e h. imstat E h im ch = Inl e \<Longrightarrow> Q (Inl e) [(Imstat im ch, Raised e)])
    \<Longrightarrow> (\<And>st. Q (Inr st) [(Imstat im ch, Returned_stats st)])
    \<Longrightarrow> post (call_imstat E im ch) s Q"
  by (simp add: post_def call_imstat_def split: sum.splits)

lemmas post_rules_from = post_and_then post_evaluate post_return_value post_read_global
  post_call_unit_from post_call_imstat_from post_call_os_path_exists post_print

lemma clean_line_raises_post:
  assumes "raises_only_Exception E"
  shows "post (clean_line E b out ds l) s (\<lambda>r es. \<forall>e. r = Inl e \<longrightarrow> is_Exception e)"
  using assms
  unfolding clean_line_def Let_def call_tclean_def call_make_mask_def call_os_makedirs_def
    call_exportfits_def raises_only_Exception_def
  by (auto intro!: post_rules_from split: sum.splits
      dest!: format_spw_raises threshold_str_raises)

lemma clean_line_raises:
  assumes "raises_only_Exception E" and "clean_line E b out ds l s = (Inl e, s')"
  shows "is_Exception e"
  using clean_line_raises_post [OF assms(1), of b out ds l s] assms(2)
  by (auto simp: post_def)

lemma for_lines_step:
  assumes "clean_line E b out ds l s = (r, s')" and "\<And>e. r = Inl e \<Longrightarrow> is_Exception e"
  shows "for_lines E b out ds (l # rest) s = for_lines E b out ds rest s'"
  using assms by (cases r) auto

lemma for_lines_fold:
  assumes "raises_only_Exception E"
  shows "for_lines E b out ds ls s =
     (Inr (), foldl (\<lambda>s l. snd (clean_line E b out ds l s)) s ls)"
proof (induction ls arbitrary: s)
  case Nil
  show ?case by simp
next
  case (Cons l ls)
  obtain r s' where c: "clean_line E b out ds l s = (r, s')"
    by (cases "clean_line E b out ds l s")
  have "for_lines E b out ds (l # ls) s = for_lines E b out ds ls s'"
    using c clean_line_raises [OF assms] by (intro for_lines_step) auto
  with Cons.IH [of s'] c show ?case by simp
qed

lemma foldl_catalog:
  "foldl f s (catalog_order dss) =
     foldl (\<lambda>s ds. foldl (\<lambda>s l. f s (ds, l)) s (lines ds)) s dss"
  by (induction dss arbitrary: s) (simp_all add: catalog_order_def foldl_map)

lemma for_datasets_fold:
  assumes "raises_only_Exception E"
  shows "for_datasets E b out dss s =
     (Inr (), foldl (\<lambda>s (ds, l). snd (clean_line E b out ds l s)) s (catalog_order dss))"
  unfolding foldl_catalog
  by (induction dss arbitrary: s) (simp_all add: for_lines_fold [OF assms])

lemma for_lines_never_raises_Exception:
  "for_lines E b out ds ls s = (Inl e, s') \<Longrightarrow> \<not> is_Exception e"
  by (induction ls arbitrary: s) (auto split: prod.splits sum.splits if_splits)

lemma for_datasets_never_raises_Exception:
  "for_datasets E b out dss s = (Inl e, s') \<Longrightarrow> \<not> is_Exception e"
  by (induction dss arbitrary: s)
     (auto split: prod.splits sum.splits dest: for_lines_never_raises_Exception)

lemma main_result:
  assumes "raises_only_Exception E"
  shows "fst (main E s) =
     (if os_path_exists E (log s) ''/Users/jea/AATau/aatau-alma-analysis/casa_images''
      then Inr ()
      else (case os_makedirs E
                  (log s @ [(Os_path_exists ''/Users/jea/AATau/aatau-alma-analysis/casa_images'',
                             Returned_bool False)])
                  ''/Users/jea/AATau/aatau-alma-analysis/casa_images'' of
              Some e \<Rightarrow> Inl e
            | None \<Rightarrow> Inr ()))"
proof -
  have loop: "and_then (for_datasets E b out dss) f s1 =
      f () (foldl (\<lambda>s (ds, l). snd (clean_line E b out ds l s)) s1 (catalog_order dss))"
    for b out dss s1 and f :: "unit \<Rightarrow> unit prog"
    by (simp add: and_then_def for_datasets_fold [OF assms])
  have pr: "and_then (print msg) f s1 = f () (record_event (Print msg) Returned_None s1)"
    for msg s1 and f :: "unit \<Rightarrow> unit prog"
    by (simp add: and_then_def print_def)
  show ?thesis
    unfolding main_def Let_def
    by (simp add: seq_simps loop pr print_def os_path_join_def join2_def
        split: option.splits)
qed

lemma format_DCO:
  "format_spw (vis_template dataset_2013_SG2) (spw line_DCO) =
     Inr ''AA_Tau_2013_SG2.spw2.selfcal.ms.contsub_fit1''"
  by code_simp

lemma format_H2CO:
  "format_spw (vis_template dataset_2013_SG2) (spw line_H2CO) =
     Inr ''AA_Tau_2013_SG2.spw6.selfcal.ms.contsub_fit1''"
  by code_simp

lemma format_HCO:
  "format_spw (vis_template dataset_2013_SG1) (spw line_HCO) =
     Inr ''AA_Tau_2013_SG1.spw1.selfcal.ms.contsub_fit1''"
  by code_simp

lemma format_CN_SPW1:
  "format_spw (vis_template dataset_2015_SG1) (spw line_CN_SPW1) =
     Inr ''AA_Tau_2015_SG1.spw1.selfcal.ms.contsub_fit1''"
  by code_simp

lemma format_CN_SPW3:
  "format_spw (vis_template dataset_2015_SG1) (spw line_CN_SPW3) =
     Inr ''AA_Tau_2015_SG1.spw3.selfcal.ms.contsub_fit1''"
  by code_simp

lemma format_13CO:
  "format_spw (vis_template dataset_2015_SG1) (spw line_13CO) =
     Inr ''AA_Tau_2015_SG1.spw6.selfcal.ms.contsub_fit1''"
  by code_simp

lemmas format_catalog = format_N2H format_DCO format_H2CO format_HCN format_HCO
  format_CN_SPW1 format_CN_SPW3 format_C18O format_13CO

lemma catalog_order_initial:
  "catalog_order (DATASETS initial_globals) =
     [(dataset_2013_SG2, line_N2H), (dataset_2013_SG2, line_DCO), (dataset_2013_SG2, line_H2CO),
      (dataset_2013_SG1, line_HCN), (dataset_2013_SG1, line_HCO),
      (dataset_2015_SG1, line_CN_SPW1), (dataset_2015_SG1, line_CN_SPW3),
      (dataset_2015_SG1, line_C18O), (dataset_2015_SG1, line_13CO)]"
  by (simp add: catalog_order_def dataset_2013_SG2_def dataset_2013_SG1_def dataset_2015_SG1_def)

lemma molecules:
  "molecule line_N2H = ''N2H+''" "molecule line_DCO = ''DCO+''" "molecule line_H2CO = ''H2CO''"
  "molecule line_HCN = ''HCN''" "molecule line_HCO = ''HCO+''"
  "molecule line_CN_SPW1 = ''CN_SPW1''" "molecule line_CN_SPW3 = ''CN_SPW3''"
  "molecule line_C18O = ''C18O''" "molecule line_13CO = ''13CO''"
  by (simp_all add: line_N2H_def line_DCO_def line_H2CO_def line_HCN_def line_HCO_def
      line_CN_SPW1_def line_CN_SPW3_def line_C18O_def line_13CO_def)

lemma mask_failing_raises_only: "raises_only_Exception mask_failing_engines"
  by (simp add: raises_only_Exception_def mask_failing_engines_def)

lemma mask_failing_step:
  assumes "\<not> isl (format_spw (vis_template ds) (spw l))"
  shows "map t_imagename (tclean_calls (log (snd (clean_line mask_failing_engines b out ds l s))))
     = map t_imagename (tclean_calls (log s)) @
       [os_path_join out [''AATau_'' @ molecule l @ ''_contsub''] @ ''_clean0'']"
proof -
  from assms obtain f where f: "format_spw (vis_template ds) (spw l) = Inr f"
    by (cases "format_spw (vis_template ds) (spw l)") auto
  show ?thesis
    unfolding clean_line_log mask_failing_run(2) [OF f]
    by (simp add: dirty_call_def dirty_args_def mask_call_def prefix_of_def)
qed

lemma all_lines_attempted:
  "map t_imagename (tclean_calls (log (foldl
       (\<lambda>s (dataset, line). snd (clean_line mask_failing_engines ''/Users/jea/AATau''
            ''/Users/jea/AATau/aatau-alma-analysis/casa_images'' dataset line s))
       initial_state (catalog_order (DATASETS initial_globals))))) =
     [''/Users/jea/AATau/aatau-alma-analysis/casa_images/AATau_N2H+_contsub_clean0'',
      ''/Users/jea/AATau/aatau-alma-analysis/casa_images/AATau_DCO+_contsub_clean0'',
      ''/Users/jea/AATau/aatau-alma-analysis/casa_images/AATau_H2CO_contsub_clean0'',
      ''/Users/jea/AATau/aatau-alma-analysis/casa_images/AATau_HCN_contsub_clean0'',
      ''/Users/jea/AATau/aatau-alma-analysis/casa_images/AATau_HCO+_contsub_clean0'',
      ''/Users/jea/AATau/aatau-alma-analysis/casa_images/AATau_CN_SPW1_contsub_clean0'',
      ''/Users/jea/AATau/aatau-alma-analysis/casa_images/AATau_CN_SPW3_contsub_clean0'',
      ''/Users/jea/AATau/aatau-alma-analysis/casa_images/AATau_C18O_contsub_clean0'',
      ''/Users/jea/AATau/aatau-alma-analysis/casa_images/AATau_13CO_contsub_clean0'']"
  unfolding catalog_order_initial
  by (simp add: mask_failing_step format_catalog molecules os_path_join_def join2_def)

section \<open>The claims\<close>

text \<open>
  C1 (as amended). For the dataset \<open>2013_SG2\<close> and the line \<open>N2H+\<close>, a run of
  \<open>clean_line\<close> that returns exports exactly two FITS files, in the directory
  \<open>aatau-alma-analysis/fits_products\<close> under the base path: first
  \<open>AATau_N2H+_contsub_clean1.fits\<close>, then \<open>AATau_N2H+_contsub_clean0.mask.fits\<close>. The names
  are built from the image names without their \<open>.image\<close> suffix.
\<close>

theorem fits_export_names:
  assumes "fst (clean_line E base_path output_path dataset_2013_SG2 line_N2H s) = Inr ()"
  shows "exported_fits (new_events E base_path output_path dataset_2013_SG2 line_N2H s) =
     [os_path_join base_path
        [''aatau-alma-analysis'', ''fits_products'', ''AATau_N2H+_contsub_clean1.fits''],
      os_path_join base_path
        [''aatau-alma-analysis'', ''fits_products'', ''AATau_N2H+_contsub_clean0.mask.fits'']]"
proof -
  have b1: "os_path_basename (prefix_of output_path line_N2H @ ''_clean1'') = ''AATau_N2H+_contsub_clean1''"
    using basename_prefix [of "''AATau_N2H+_contsub''" "''_clean1''" output_path]
    by (simp add: prefix_of_def line_N2H_def)
  have b0: "os_path_basename (prefix_of output_path line_N2H @ ''_clean0'') = ''AATau_N2H+_contsub_clean0''"
    using basename_prefix [of "''AATau_N2H+_contsub''" "''_clean0''" output_path]
    by (simp add: prefix_of_def line_N2H_def)
  from clean_line_run [of s base_path output_path dataset_2013_SG2 line_N2H E] assms
  show ?thesis
    unfolding run_shape_def
    by (elim disjE exE conjE)
       (simp_all add: shape_defs b0 b1 fits_dir_of_def os_path_join_def)
qed

text \<open>
  The run of the line against engines that all return, from the base path and the output
  directory of \<open>main\<close>.
\<close>

theorem fits_export_names_witness:
  "fst (clean_line (simulated_engines (Some [(''rms'', [binary64 (3 / 1000)])]))
          ''/Users/jea/AATau'' ''/Users/jea/AATau/aatau-alma-analysis/casa_images''
          dataset_2013_SG2 line_N2H initial_state) = Inr () \<and>
   exported_fits (new_events (simulated_engines (Some [(''rms'', [binary64 (3 / 1000)])]))
          ''/Users/jea/AATau'' ''/Users/jea/AATau/aatau-alma-analysis/casa_images''
          dataset_2013_SG2 line_N2H initial_state) =
     [''/Users/jea/AATau/aatau-alma-analysis/fits_products/AATau_N2H+_contsub_clean1.fits'',
      ''/Users/jea/AATau/aatau-alma-analysis/fits_products/AATau_N2H+_contsub_clean0.mask.fits'']"
  using fits_export_names [OF run_N2H_0003(1) [of "''/Users/jea/AATau''"
        "''/Users/jea/AATau/aatau-alma-analysis/casa_images''"]]
    run_N2H_0003(1) [of "''/Users/jea/AATau''"
        "''/Users/jea/AATau/aatau-alma-analysis/casa_images''"]
  by (simp add: os_path_join_def join2_def)

text \<open>
  The same run does not export the names of the claim as it was stated, with \<open>.image\<close>
  before \<open>.fits\<close>.
\<close>

theorem fits_export_names_counterexample:
  "fst (clean_line (simulated_engines (Some [(''rms'', [binary64 (3 / 1000)])]))
          ''/Users/jea/AATau'' ''/Users/jea/AATau/aatau-alma-analysis/casa_images''
          dataset_2013_SG2 line_N2H initial_state) = Inr () \<and>
   map os_path_basename
     (exported_fits (new_events (simulated_engines (Some [(''rms'', [binary64 (3 / 1000)])]))
          ''/Users/jea/AATau'' ''/Users/jea/AATau/aatau-alma-analysis/casa_images''
          dataset_2013_SG2 line_N2H initial_state)) =
     [''AATau_N2H+_contsub_clean1.fits'', ''AATau_N2H+_contsub_clean0.mask.fits''] \<and>
   map os_path_basename
     (exported_fits (new_events (simulated_engines (Some [(''rms'', [binary64 (3 / 1000)])]))
          ''/Users/jea/AATau'' ''/Users/jea/AATau/aatau-alma-analysis/casa_images''
          dataset_2013_SG2 line_N2H initial_state)) \<noteq>
     [''AATau_N2H+_contsub_clean1.image.fits'', ''AATau_N2H+_contsub_clean0.mask.image.fits'']"
  unfolding run_N2H_0003
  by (simp add: imaging_events_def dirty_call_def mask_call_def imstat_call_def final_call_def
      export_image_call_def export_mask_call_def path_eval line_N2H_def)

text \<open>
  C2. The threshold given to the final pass comes from \<open>imstat\<close> on channels \<open>0~30\<close> of
  the pass-0 cube: with an RMS above zero it is \<open>round(2000 * RMS, 1)\<close>, printed,
  followed by \<open>mJy\<close>; otherwise (an RMS that is not above zero, or no RMS in the
  statistics) it is \<open>10mJy\<close>. An RMS of exactly zero gives \<open>10mJy\<close>. (With an empty
  sequence under \<open>'rms'\<close> no final pass is run: see C10.)
\<close>

theorem final_threshold_rule:
  assumes "globals_of s = initial_globals"
    and "(Tclean a, r) \<in> set (new_events E base_path output_path dataset line s)"
    and "t_mask a \<noteq> None"
  shows "\<exists>st.
      (Imstat (os_path_join output_path [''AATau_'' @ molecule line @ ''_contsub'']
                 @ ''_clean0.image'') ''0~30'', Returned_stats st)
        \<in> set (new_events E base_path output_path dataset line s) \<and>
      t_threshold a =
        (case first_rms st of
           Some rms \<Rightarrow>
             if float_gt_zero rms
             then float_repr (py_round1 (float_mul (Fin 2000) rms)) @ ''mJy''
             else ''10mJy''
         | None \<Rightarrow> ''10mJy'') \<and>
      (first_rms st = Some (Fin 0) \<longrightarrow> t_threshold a = ''10mJy'')"
proof -
  from final_pass_threshold [OF assms(2,3)] assms(1) obtain st where
    ev: "(Imstat (prefix_of output_path line @ ''_clean0.image'') ''0~30'', Returned_stats st)
           \<in> set (new_events E base_path output_path dataset line s)" and
    thr: "threshold_str (Fin 2) st = Inr (t_threshold a)"
    by (auto simp: initial_globals_def binary64_2)
  from threshold_str_value [OF thr] have v: "t_threshold a =
        (case first_rms st of
           Some rms \<Rightarrow>
             if float_gt_zero rms
             then float_repr (py_round1 (float_mul (Fin 2000) rms)) @ ''mJy''
             else ''10mJy''
         | None \<Rightarrow> ''10mJy'')" .
  then have "first_rms st = Some (Fin 0) \<longrightarrow> t_threshold a = ''10mJy''" by simp
  with ev v show ?thesis by (auto simp: prefix_of_def)
qed

text \<open>
  Two runs of the line \<open>N2H+\<close>: with an RMS of 0.25 the final pass gets
  \<open>round(2000 * 0.25, 1)\<close>, printed; with an RMS of exactly zero it gets
  \<open>10mJy\<close>.
\<close>

theorem final_threshold_rule_witness:
  "globals_of initial_state = initial_globals \<and>
   (Tclean (final_args initial_globals ''/Users/jea/AATau''
       ''/Users/jea/AATau/aatau-alma-analysis/casa_images'' dataset_2013_SG2 line_N2H
       ''AA_Tau_2013_SG2.spw0.selfcal.ms.contsub_fit1'' ''500.0mJy''), Returned_None)
     \<in> set (new_events (simulated_engines (Some [(''rms'', [Fin (1 / 4)])])) ''/Users/jea/AATau''
            ''/Users/jea/AATau/aatau-alma-analysis/casa_images'' dataset_2013_SG2 line_N2H
            initial_state) \<and>
   t_mask (final_args initial_globals ''/Users/jea/AATau''
       ''/Users/jea/AATau/aatau-alma-analysis/casa_images'' dataset_2013_SG2 line_N2H
       ''AA_Tau_2013_SG2.spw0.selfcal.ms.contsub_fit1'' ''500.0mJy'') \<noteq> None \<and>
   (\<exists>st. (Imstat
           ''/Users/jea/AATau/aatau-alma-analysis/casa_images/AATau_N2H+_contsub_clean0.image''
           ''0~30'', Returned_stats st)
          \<in> set (new_events (simulated_engines (Some [(''rms'', [Fin (1 / 4)])]))
                 ''/Users/jea/AATau'' ''/Users/jea/AATau/aatau-alma-analysis/casa_images''
                 dataset_2013_SG2 line_N2H initial_state) \<and>
         first_rms st = Some (Fin (1 / 4)) \<and>
         t_threshold (final_args initial_globals ''/Users/jea/AATau''
           ''/Users/jea/AATau/aatau-alma-analysis/casa_images'' dataset_2013_SG2 line_N2H
           ''AA_Tau_2013_SG2.spw0.selfcal.ms.contsub_fit1'' ''500.0mJy'') =
           float_repr (py_round1 (float_mul (Fin 2000) (Fin (1 / 4)))) @ ''mJy'') \<and>
   (Tclean (final_args initial_globals ''/Users/jea/AATau''
       ''/Users/jea/AATau/aatau-alma-analysis/casa_images'' dataset_2013_SG2 line_N2H
       ''AA_Tau_2013_SG2.spw0.selfcal.ms.contsub_fit1'' ''10mJy''), Returned_None)
     \<in> set (new_events (simulated_engines (Some [(''rms'', [Fin 0])])) ''/Users/jea/AATau''
            ''/Users/jea/AATau/aatau-alma-analysis/casa_images'' dataset_2013_SG2 line_N2H
            initial_state) \<and>
   (\<exists>st. (Imstat
           ''/Users/jea/AATau/aatau-alma-analysis/casa_images/AATau_N2H+_contsub_clean0.image''
           ''0~30'', Returned_stats st)
          \<in> set (new_events (simulated_engines (Some [(''rms'', [Fin 0])]))
                 ''/Users/jea/AATau'' ''/Users/jea/AATau/aatau-alma-analysis/casa_images''
                 dataset_2013_SG2 line_N2H initial_state) \<and>
         first_rms st = Some (Fin 0) \<and>
         t_threshold (final_args initial_globals ''/Users/jea/AATau''
           ''/Users/jea/AATau/aatau-alma-analysis/casa_images'' dataset_2013_SG2 line_N2H
           ''AA_Tau_2013_SG2.spw0.selfcal.ms.contsub_fit1'' ''10mJy'') = ''10mJy'')"
proof -
  let ?b = "''/Users/jea/AATau''"
  let ?out = "''/Users/jea/AATau/aatau-alma-analysis/casa_images''"
  let ?f = "''AA_Tau_2013_SG2.spw0.selfcal.ms.contsub_fit1''"
  let ?img = "''/Users/jea/AATau/aatau-alma-analysis/casa_images/AATau_N2H+_contsub_clean0.image''"
  let ?E1 = "simulated_engines (Some [(''rms'', [Fin (1 / 4)])])"
  let ?E0 = "simulated_engines (Some [(''rms'', [Fin 0])])"
  let ?a1 = "final_args initial_globals ?b ?out dataset_2013_SG2 line_N2H ?f ''500.0mJy''"
  let ?a0 = "final_args initial_globals ?b ?out dataset_2013_SG2 line_N2H ?f ''10mJy''"
  have g: "globals_of initial_state = initial_globals" by simp
  have t1: "threshold_str (RMS_MULTIPLIER (globals_of initial_state))
              (Some [(''rms'', [Fin (1 / 4)])]) = Inr ''500.0mJy''"
    by (simp add: threshold_str_quarter)
  have t0: "threshold_str (RMS_MULTIPLIER (globals_of initial_state))
              (Some [(''rms'', [Fin 0])]) = Inr ''10mJy''"
    by (simp add: threshold_str_zero)
  note n1 = simulated_run(2) [OF format_N2H t1, of ?b ?out]
  note n0 = simulated_run(2) [OF format_N2H t0, of ?b ?out]
  have e1: "(Tclean ?a1, Returned_None)
      \<in> set (new_events ?E1 ?b ?out dataset_2013_SG2 line_N2H initial_state)"
    unfolding n1 by (simp add: imaging_events_def final_call_def)
  have e0: "(Tclean ?a0, Returned_None)
      \<in> set (new_events ?E0 ?b ?out dataset_2013_SG2 line_N2H initial_state)"
    unfolding n0 by (simp add: imaging_events_def final_call_def)
  have m1: "t_mask ?a1 \<noteq> None" and m0: "t_mask ?a0 \<noteq> None"
    by (simp_all add: final_args_def)
  have img: "os_path_join ?out [''AATau_'' @ molecule line_N2H @ ''_contsub''] @ ''_clean0.image''
      = ?img"
    by (simp add: os_path_join_def join2_def line_N2H_def)
  have only1: "st = Some [(''rms'', [Fin (1 / 4)])]"
    if "(Imstat i c, Returned_stats st)
          \<in> set (new_events ?E1 ?b ?out dataset_2013_SG2 line_N2H initial_state)" for i c st
    using that unfolding n1
    by (simp add: imaging_events_def dirty_call_def mask_call_def imstat_call_def final_call_def
        export_image_call_def export_mask_call_def)
  have only0: "st = Some [(''rms'', [Fin 0])]"
    if "(Imstat i c, Returned_stats st)
          \<in> set (new_events ?E0 ?b ?out dataset_2013_SG2 line_N2H initial_state)" for i c st
    using that unfolding n0
    by (simp add: imaging_events_def dirty_call_def mask_call_def imstat_call_def final_call_def
        export_image_call_def export_mask_call_def)
  from final_threshold_rule [OF g e1 m1] obtain st1 where
    s1: "(Imstat ?img ''0~30'', Returned_stats st1)
           \<in> set (new_events ?E1 ?b ?out dataset_2013_SG2 line_N2H initial_state)" and
    v1: "t_threshold ?a1 =
        (case first_rms st1 of
           Some rms \<Rightarrow>
             if float_gt_zero rms
             then float_repr (py_round1 (float_mul (Fin 2000) rms)) @ ''mJy''
             else ''10mJy''
         | None \<Rightarrow> ''10mJy'')"
    unfolding img by blast
  from only1 [OF s1] have r1: "first_rms st1 = Some (Fin (1 / 4))"
    by (simp add: first_rms_def)
  from v1 r1 have c1: "t_threshold ?a1 =
      float_repr (py_round1 (float_mul (Fin 2000) (Fin (1 / 4)))) @ ''mJy''"
    by simp
  from final_threshold_rule [OF g e0 m0] obtain st0 where
    s0: "(Imstat ?img ''0~30'', Returned_stats st0)
           \<in> set (new_events ?E0 ?b ?out dataset_2013_SG2 line_N2H initial_state)" and
    z0: "first_rms st0 = Some (Fin 0) \<longrightarrow> t_threshold ?a0 = ''10mJy''"
    unfolding img by blast
  from only0 [OF s0] have r0: "first_rms st0 = Some (Fin 0)"
    by (simp add: first_rms_def)
  with z0 have c0: "t_threshold ?a0 = ''10mJy''" by simp
  from g e1 m1 s1 r1 c1 e0 s0 r0 c0 show ?thesis by blast
qed

text \<open>
  C3. The batch driver isolates the lines. A line whose processing raises an exception
  (an instance of \<open>Exception\<close>) does not stop the loop: the remaining lines are run from
  the state the failed line left; and no instance of \<open>Exception\<close> ever leaves the loops
  over datasets and lines. So, when the failures of the engines are instances of
  \<open>Exception\<close>, the loops run \<open>clean_line\<close> on every line of the catalog, in catalog
  order, and return; and \<open>main\<close> raises only if creating the output directory does,
  before any line is processed.
\<close>

theorem batch_isolation:
  "(raises_only_Exception E \<longrightarrow>
      for_datasets E base_path output_path datasets s =
        (Inr (),
         foldl (\<lambda>s (dataset, line). snd (clean_line E base_path output_path dataset line s)) s
           (catalog_order datasets)) \<and>
      fst (main E s) =
        (if os_path_exists E (log s) ''/Users/jea/AATau/aatau-alma-analysis/casa_images''
         then Inr ()
         else (case os_makedirs E
                     (log s @
                      [(Os_path_exists ''/Users/jea/AATau/aatau-alma-analysis/casa_images'',
                        Returned_bool False)])
                     ''/Users/jea/AATau/aatau-alma-analysis/casa_images'' of
                 Some e \<Rightarrow> Inl e
               | None \<Rightarrow> Inr ()))) \<and>
   (\<forall>e s'. clean_line E base_path output_path dataset line s = (Inl e, s') \<longrightarrow>
      is_Exception e \<longrightarrow>
      for_lines E base_path output_path dataset (line # rest) s =
        for_lines E base_path output_path dataset rest s') \<and>
   (\<forall>e s'. for_datasets E base_path output_path datasets s = (Inl e, s') \<longrightarrow>
      \<not> is_Exception e)"
  using for_datasets_fold [of E base_path output_path datasets s] main_result [of E s]
    for_datasets_never_raises_Exception [of E base_path output_path datasets s]
  by auto

text \<open>
  With a masking routine that raises for every line, the first line fails, the loop goes on,
  every one of the nine lines of the catalog gets its dirty pass, and \<open>main\<close>
  returns.
\<close>

theorem batch_isolation_witness:
  "raises_only_Exception mask_failing_engines \<and>
   fst (clean_line mask_failing_engines ''/Users/jea/AATau''
          ''/Users/jea/AATau/aatau-alma-analysis/casa_images'' dataset_2013_SG2 line_N2H
          initial_state) = Inl (OtherException ''no mask'') \<and>
   is_Exception (OtherException ''no mask'') \<and>
   for_lines mask_failing_engines ''/Users/jea/AATau''
       ''/Users/jea/AATau/aatau-alma-analysis/casa_images'' dataset_2013_SG2
       [line_N2H, line_DCO, line_H2CO] initial_state =
     for_lines mask_failing_engines ''/Users/jea/AATau''
       ''/Users/jea/AATau/aatau-alma-analysis/casa_images'' dataset_2013_SG2
       [line_DCO, line_H2CO]
       (snd (clean_line mask_failing_engines ''/Users/jea/AATau''
          ''/Users/jea/AATau/aatau-alma-analysis/casa_images'' dataset_2013_SG2 line_N2H
          initial_state)) \<and>
   fst (for_datasets mask_failing_engines ''/Users/jea/AATau''
          ''/Users/jea/AATau/aatau-alma-analysis/casa_images'' (DATASETS initial_globals)
          initial_state) = Inr () \<and>
   map t_imagename (tclean_calls (log (snd (for_datasets mask_failing_engines ''/Users/jea/AATau''
          ''/Users/jea/AATau/aatau-alma-analysis/casa_images'' (DATASETS initial_globals)
          initial_state)))) =
     [''/Users/jea/AATau/aatau-alma-analysis/casa_images/AATau_N2H+_contsub_clean0'',
      ''/Users/jea/AATau/aatau-alma-analysis/casa_images/AATau_DCO+_contsub_clean0'',
      ''/Users/jea/AATau/aatau-alma-analysis/casa_images/AATau_H2CO_contsub_clean0'',
      ''/Users/jea/AATau/aatau-alma-analysis/casa_images/AATau_HCN_contsub_clean0'',
      ''/Users/jea/AATau/aatau-alma-analysis/casa_images/AATau_HCO+_contsub_clean0'',
      ''/Users/jea/AATau/aatau-alma-analysis/casa_images/AATau_CN_SPW1_contsub_clean0'',
      ''/Users/jea/AATau/aatau-alma-analysis/casa_images/AATau_CN_SPW3_contsub_clean0'',
      ''/Users/jea/AATau/aatau-alma-analysis/casa_images/AATau_C18O_contsub_clean0'',
      ''/Users/jea/AATau/aatau-alma-analysis/casa_images/AATau_13CO_contsub_clean0''] \<and>
   fst (main mask_failing_engines initial_state) = Inr ()"
proof -
  let ?E = mask_failing_engines
  let ?b = "''/Users/jea/AATau''"
  let ?out = "''/Users/jea/AATau/aatau-alma-analysis/casa_images''"
  note r = mask_failing_raises_only
  have c: "fst (clean_line ?E ?b ?out dataset_2013_SG2 line_N2H initial_state)
      = Inl (OtherException ''no mask'')"
    by (rule mask_failing_run(1) [OF format_N2H])
  then have c': "clean_line ?E ?b ?out dataset_2013_SG2 line_N2H initial_state =
      (Inl (OtherException ''no mask''),
       snd (clean_line ?E ?b ?out dataset_2013_SG2 line_N2H initial_state))"
    by (metis prod.collapse)
  have x: "is_Exception (OtherException ''no mask'')" by simp
  note b = batch_isolation [of ?E ?b ?out "DATASETS initial_globals" initial_state
      dataset_2013_SG2 line_N2H "[line_DCO, line_H2CO]"]
  from b r have loop: "for_datasets ?E ?b ?out (DATASETS initial_globals) initial_state =
      (Inr (),
       foldl (\<lambda>s (dataset, line). snd (clean_line ?E ?b ?out dataset line s)) initial_state
         (catalog_order (DATASETS initial_globals)))"
    by blast
  from b r have m: "fst (main ?E initial_state) = Inr ()"
    by (simp add: mask_failing_engines_def)
  from b c' x have step: "for_lines ?E ?b ?out dataset_2013_SG2 [line_N2H, line_DCO, line_H2CO]
      initial_state =
     for_lines ?E ?b ?out dataset_2013_SG2 [line_DCO, line_H2CO]
       (snd (clean_line ?E ?b ?out dataset_2013_SG2 line_N2H initial_state))"
    by blast
  have fl: "fst (for_datasets ?E ?b ?out (DATASETS initial_globals) initial_state) = Inr ()"
    unfolding loop by simp
  have names: "map t_imagename (tclean_calls (log (snd (for_datasets ?E ?b ?out
          (DATASETS initial_globals) initial_state)))) =
     [''/Users/jea/AATau/aatau-alma-analysis/casa_images/AATau_N2H+_contsub_clean0'',
      ''/Users/jea/AATau/aatau-alma-analysis/casa_images/AATau_DCO+_contsub_clean0'',
      ''/Users/jea/AATau/aatau-alma-analysis/casa_images/AATau_H2CO_contsub_clean0'',
      ''/Users/jea/AATau/aatau-alma-analysis/casa_images/AATau_HCN_contsub_clean0'',
      ''/Users/jea/AATau/aatau-alma-analysis/casa_images/AATau_HCO+_contsub_clean0'',
      ''/Users/jea/AATau/aatau-alma-analysis/casa_images/AATau_CN_SPW1_contsub_clean0'',
      ''/Users/jea/AATau/aatau-alma-analysis/casa_images/AATau_CN_SPW3_contsub_clean0'',
      ''/Users/jea/AATau/aatau-alma-analysis/casa_images/AATau_C18O_contsub_clean0'',
      ''/Users/jea/AATau/aatau-alma-analysis/casa_images/AATau_13CO_contsub_clean0'']"
    unfolding loop snd_conv by (rule all_lines_attempted)
  from r c x step fl names m show ?thesis by blast
qed

text \<open>
  C4. Every \<open>tclean\<close> call of \<open>clean_line\<close> reads the visibility file from the directory
  \<open>contsub_\<close> followed by the dataset identifier with its underscores removed, under
  the base path; for the identifier \<open>2015_SG1\<close> the directory is \<open>contsub_2015\<close>. The file
  name in it is the dataset's template filled with the spectral window.
\<close>

theorem visibility_directory:
  assumes "(Tclean a, r) \<in> set (new_events E base_path output_path dataset line s)"
  shows "\<exists>f. format_spw (vis_template dataset) (spw line) = Inr f \<and>
           t_vis a =
             os_path_join base_path
               [if name dataset = ''2015_SG1'' then ''contsub_2015''
                else ''contsub_'' @ filter (\<lambda>c. c \<noteq> CHR ''_'') (name dataset),
                f]"
  using clean_line_run [of s base_path output_path dataset line E] assms
  unfolding run_shape_def
  by (elim disjE exE conjE)
     (auto simp: shape_defs dirty_args_def final_args_def contsub_dir_of_def
        remove_underscores_def os_path_join_two)

text \<open>
  The dirty pass of \<open>N2H+\<close> (dataset \<open>2013_SG2\<close>) and that of
  \<open>C18O\<close> (dataset \<open>2015_SG1\<close>).
\<close>

theorem visibility_directory_witness:
  "(Tclean (dirty_args initial_globals ''/Users/jea/AATau''
       ''/Users/jea/AATau/aatau-alma-analysis/casa_images'' dataset_2013_SG2 line_N2H
       ''AA_Tau_2013_SG2.spw0.selfcal.ms.contsub_fit1''), Returned_None)
     \<in> set (new_events (simulated_engines None) ''/Users/jea/AATau''
            ''/Users/jea/AATau/aatau-alma-analysis/casa_images'' dataset_2013_SG2 line_N2H
            initial_state) \<and>
   t_vis (dirty_args initial_globals ''/Users/jea/AATau''
       ''/Users/jea/AATau/aatau-alma-analysis/casa_images'' dataset_2013_SG2 line_N2H
       ''AA_Tau_2013_SG2.spw0.selfcal.ms.contsub_fit1'') =
     ''/Users/jea/AATau/contsub_2013SG2/AA_Tau_2013_SG2.spw0.selfcal.ms.contsub_fit1'' \<and>
   (Tclean (dirty_args initial_globals ''/Users/jea/AATau''
       ''/Users/jea/AATau/aatau-alma-analysis/casa_images'' dataset_2015_SG1 line_C18O
       ''AA_Tau_2015_SG1.spw5.selfcal.ms.contsub_fit1''), Returned_None)
     \<in> set (new_events (simulated_engines None) ''/Users/jea/AATau''
            ''/Users/jea/AATau/aatau-alma-analysis/casa_images'' dataset_2015_SG1 line_C18O
            initial_state) \<and>
   t_vis (dirty_args initial_globals ''/Users/jea/AATau''
       ''/Users/jea/AATau/aatau-alma-analysis/casa_images'' dataset_2015_SG1 line_C18O
       ''AA_Tau_2015_SG1.spw5.selfcal.ms.contsub_fit1'') =
     ''/Users/jea/AATau/contsub_2015/AA_Tau_2015_SG1.spw5.selfcal.ms.contsub_fit1''"
proof -
  let ?b = "''/Users/jea/AATau''"
  let ?out = "''/Users/jea/AATau/aatau-alma-analysis/casa_images''"
  let ?a1 = "dirty_args initial_globals ?b ?out dataset_2013_SG2 line_N2H
       ''AA_Tau_2013_SG2.spw0.selfcal.ms.contsub_fit1''"
  let ?a2 = "dirty_args initial_globals ?b ?out dataset_2015_SG1 line_C18O
       ''AA_Tau_2015_SG1.spw5.selfcal.ms.contsub_fit1''"
  have e1: "(Tclean ?a1, Returned_None)
      \<in> set (new_events (simulated_engines None) ?b ?out dataset_2013_SG2 line_N2H initial_state)"
    unfolding simulated_run(2) [OF format_N2H threshold_str_None]
    by (simp add: imaging_events_def dirty_call_def)
  have e2: "(Tclean ?a2, Returned_None)
      \<in> set (new_events (simulated_engines None) ?b ?out dataset_2015_SG1 line_C18O initial_state)"
    unfolding simulated_run(2) [OF format_C18O threshold_str_None]
    by (simp add: imaging_events_def dirty_call_def)
  from visibility_directory [OF e1] obtain f1 where
    f1: "format_spw (vis_template dataset_2013_SG2) (spw line_N2H) = Inr f1" and
    t1: "t_vis ?a1 =
      os_path_join ?b
        [if name dataset_2013_SG2 = ''2015_SG1'' then ''contsub_2015''
         else ''contsub_'' @ filter (\<lambda>c. c \<noteq> CHR ''_'') (name dataset_2013_SG2), f1]"
    by blast
  from f1 have "f1 = ''AA_Tau_2013_SG2.spw0.selfcal.ms.contsub_fit1''"
    by (simp add: format_N2H)
  with t1 have v1: "t_vis ?a1 =
      ''/Users/jea/AATau/contsub_2013SG2/AA_Tau_2013_SG2.spw0.selfcal.ms.contsub_fit1''"
    by (simp add: dataset_2013_SG2_def os_path_join_def join2_def)
  from visibility_directory [OF e2] obtain f2 where
    f2: "format_spw (vis_template dataset_2015_SG1) (spw line_C18O) = Inr f2" and
    t2: "t_vis ?a2 =
      os_path_join ?b
        [if name dataset_2015_SG1 = ''2015_SG1'' then ''contsub_2015''
         else ''contsub_'' @ filter (\<lambda>c. c \<noteq> CHR ''_'') (name dataset_2015_SG1), f2]"
    by blast
  from f2 have "f2 = ''AA_Tau_2015_SG1.spw5.selfcal.ms.contsub_fit1''"
    by (simp add: format_C18O)
  with t2 have v2: "t_vis ?a2 =
      ''/Users/jea/AATau/contsub_2015/AA_Tau_2015_SG1.spw5.selfcal.ms.contsub_fit1''"
    by (simp add: dataset_2015_SG1_def os_path_join_def join2_def)
  from e1 e2 v1 v2 show ?thesis by blast
qed

text \<open>
  C5. When the statistics give an RMS of 0.003, the threshold given to the final pass is
  the string \<open>6.0mJy\<close>.
\<close>

theorem threshold_of_rms_0003:
  assumes "globals_of s = initial_globals"
    and "(Imstat img chans, Returned_stats st)
           \<in> set (new_events E base_path output_path dataset line s)"
    and "first_rms st = Some (binary64 (3 / 1000))"
    and "(Tclean a, r) \<in> set (new_events E base_path output_path dataset line s)"
    and "t_mask a \<noteq> None"
  shows "t_threshold a = ''6.0mJy''"
proof -
  from final_pass_threshold [OF assms(4,5)] assms(1,2) have
    thr: "threshold_str (Fin 2) st = Inr (t_threshold a)"
    by (auto simp: initial_globals_def binary64_2)
  from threshold_str_value [OF thr] assms(3) show ?thesis
    by (simp add: threshold_value_0003 float_gt_zero_0003)
qed

text \<open>
  The run of the line \<open>N2H+\<close> against engines whose \<open>imstat\<close>
  returns an RMS of 0.003.
\<close>

theorem threshold_of_rms_0003_witness:
  "globals_of initial_state = initial_globals \<and>
   (Imstat ''/Users/jea/AATau/aatau-alma-analysis/casa_images/AATau_N2H+_contsub_clean0.image''
      ''0~30'', Returned_stats (Some [(''rms'', [binary64 (3 / 1000)])]))
     \<in> set (new_events (simulated_engines (Some [(''rms'', [binary64 (3 / 1000)])]))
            ''/Users/jea/AATau'' ''/Users/jea/AATau/aatau-alma-analysis/casa_images''
            dataset_2013_SG2 line_N2H initial_state) \<and>
   first_rms (Some [(''rms'', [binary64 (3 / 1000)])]) = Some (binary64 (3 / 1000)) \<and>
   (\<exists>a. (Tclean a, Returned_None)
          \<in> set (new_events (simulated_engines (Some [(''rms'', [binary64 (3 / 1000)])]))
                 ''/Users/jea/AATau'' ''/Users/jea/AATau/aatau-alma-analysis/casa_images''
                 dataset_2013_SG2 line_N2H initial_state) \<and>
        t_mask a \<noteq> None \<and> t_niter a = 50000 \<and> t_threshold a = ''6.0mJy'')"
proof -
  let ?b = "''/Users/jea/AATau''"
  let ?out = "''/Users/jea/AATau/aatau-alma-analysis/casa_images''"
  let ?f = "''AA_Tau_2013_SG2.spw0.selfcal.ms.contsub_fit1''"
  let ?st = "Some [(''rms'', [binary64 (3 / 1000)])]"
  let ?E = "simulated_engines ?st"
  obtain thr where a: "thr = (''6.0mJy'' :: string)" by simp
  let ?a = "final_args initial_globals ?b ?out dataset_2013_SG2 line_N2H ?f thr"
  have g: "globals_of initial_state = initial_globals" by simp
  note n = run_N2H_0003(2) [of ?b ?out]
  have i: "(Imstat
      ''/Users/jea/AATau/aatau-alma-analysis/casa_images/AATau_N2H+_contsub_clean0.image''
      ''0~30'', Returned_stats ?st)
      \<in> set (new_events ?E ?b ?out dataset_2013_SG2 line_N2H initial_state)"
    unfolding n
    by (simp add: imaging_events_def imstat_call_def prefix_of_def os_path_join_def join2_def
        line_N2H_def)
  have r: "first_rms ?st = Some (binary64 (3 / 1000))" by (simp add: first_rms_def)
  have e: "(Tclean ?a, Returned_None)
      \<in> set (new_events ?E ?b ?out dataset_2013_SG2 line_N2H initial_state)"
    unfolding n a by (simp add: imaging_events_def final_call_def)
  have m: "t_mask ?a \<noteq> None" and k: "t_niter ?a = 50000" by (simp_all add: final_args_def)
  from threshold_of_rms_0003 [OF g i r e m] have "t_threshold ?a = ''6.0mJy''" .
  with g i r e m k show ?thesis by blast
qed

text \<open>
  C6. The masking routine is given the whole list of rest frequencies of the line, each
  multiplied by \<open>1e9\<close> (GHz to Hz), in the same order and of the same length, also
  when the list has more than one entry; and it is called in every run in which the
  dirty pass returns.
\<close>

theorem restfreqs_forwarded_in_hertz:
  "(\<forall>img fs ps r.
      (Make_mask img fs ps, r) \<in> set (new_events E base_path output_path dataset line s) \<longrightarrow>
      fs = map (\<lambda>freq. float_mul freq (Fin (10 ^ 9))) (restfreqs line) \<and>
      length fs = length (restfreqs line) \<and>
      (\<forall>i < length (restfreqs line). fs ! i = float_mul (restfreqs line ! i) (Fin (10 ^ 9)))) \<and>
   (\<forall>a. (Tclean a, Returned_None) \<in> set (new_events E base_path output_path dataset line s) \<longrightarrow>
      (\<exists>img ps r.
         (Make_mask img (map (\<lambda>freq. float_mul freq (Fin (10 ^ 9))) (restfreqs line)) ps, r)
           \<in> set (new_events E base_path output_path dataset line s)))"
  using clean_line_run [of s base_path output_path dataset line E]
  unfolding run_shape_def
  by (elim disjE exE conjE)
     (auto simp: shape_defs binary64_1e9)

text \<open>The line \<open>HCN\<close>, with six rest frequencies.\<close>

theorem restfreqs_forwarded_witness:
  "(Make_mask ''/Users/jea/AATau/aatau-alma-analysis/casa_images/AATau_HCN_contsub_clean0.image''
      (map (\<lambda>freq. float_mul freq (Fin (10 ^ 9))) (restfreqs line_HCN)) initial_MASK_PARAMS,
    Returned_None)
     \<in> set (new_events (simulated_engines None) ''/Users/jea/AATau''
            ''/Users/jea/AATau/aatau-alma-analysis/casa_images'' dataset_2013_SG1 line_HCN
            initial_state) \<and>
   length (map (\<lambda>freq. float_mul freq (Fin (10 ^ 9))) (restfreqs line_HCN)) = 6 \<and>
   map (\<lambda>freq. float_mul freq (Fin (10 ^ 9))) (restfreqs line_HCN) ! 3 =
     float_mul (binary64 (2658864343 / 10000000)) (Fin (10 ^ 9))"
proof -
  let ?b = "''/Users/jea/AATau''"
  let ?out = "''/Users/jea/AATau/aatau-alma-analysis/casa_images''"
  let ?fs = "map (\<lambda>freq. float_mul freq (Fin (10 ^ 9))) (restfreqs line_HCN)"
  have e: "(Make_mask
      ''/Users/jea/AATau/aatau-alma-analysis/casa_images/AATau_HCN_contsub_clean0.image''
      ?fs initial_MASK_PARAMS, Returned_None)
      \<in> set (new_events (simulated_engines None) ?b ?out dataset_2013_SG1 line_HCN initial_state)"
    unfolding simulated_run(2) [OF format_HCN threshold_str_None]
    by (simp add: imaging_events_def mask_call_def binary64_1e9 path_eval)
       (simp add: line_HCN_def)
  have len: "length (restfreqs line_HCN) = 6" by (simp add: line_HCN_def)
  from restfreqs_forwarded_in_hertz [of "simulated_engines None" ?b ?out dataset_2013_SG1
      line_HCN initial_state] e
  have "length ?fs = length (restfreqs line_HCN) \<and>
        (\<forall>i < length (restfreqs line_HCN). ?fs ! i = float_mul (restfreqs line_HCN ! i) (Fin (10 ^ 9)))"
    by blast
  with len have "length ?fs = 6" and "?fs ! 3 = float_mul (restfreqs line_HCN ! 3) (Fin (10 ^ 9))"
    by auto
  moreover have "restfreqs line_HCN ! 3 = binary64 (2658864343 / 10000000)"
    by (simp add: line_HCN_def)
  ultimately show ?thesis using e by simp
qed

text \<open>
  C7. A run of \<open>clean_line\<close> that returns makes exactly two \<open>tclean\<close> calls, in this
  order: the dirty pass, with \<open>niter = 0\<close> and the fixed threshold \<open>5mJy\<close>, and the final
  pass, with the mask image, the threshold that step 3 computed from the statistics
  (or its fallback), and the iteration cap 50000; both with the shared configuration
  \<open>TCLEAN_COMMON_PARAMS\<close>, the dataset's channel width and the line's rest frequency.
\<close>

theorem two_deconvolution_calls:
  assumes "fst (clean_line E base_path output_path dataset line s) = Inr ()"
    and "globals_of s = initial_globals"
  shows "\<exists>f st thr.
      format_spw (vis_template dataset) (spw line) = Inr f \<and>
      (Imstat (os_path_join output_path [''AATau_'' @ molecule line @ ''_contsub'']
                 @ ''_clean0.image'') ''0~30'', Returned_stats st)
        \<in> set (new_events E base_path output_path dataset line s) \<and>
      threshold_str (Fin 2) st = Inr thr \<and>
      tclean_calls (new_events E base_path output_path dataset line s) =
        [\<lparr>t_vis = os_path_join base_path [contsub_dir_of dataset, f],
          t_imagename =
            os_path_join output_path [''AATau_'' @ molecule line @ ''_contsub''] @ ''_clean0'',
          t_mask = None,
          t_width = width dataset,
          t_restfreq = float_repr (line_freq line) @ ''GHz'',
          t_threshold = ''5mJy'',
          t_niter = 0,
          t_common = initial_TCLEAN_COMMON_PARAMS\<rparr>,
         \<lparr>t_vis = os_path_join base_path [contsub_dir_of dataset, f],
          t_imagename =
            os_path_join output_path [''AATau_'' @ molecule line @ ''_contsub''] @ ''_clean1'',
          t_mask =
            Some (os_path_join output_path [''AATau_'' @ molecule line @ ''_contsub'']
                    @ ''_clean0.mask.image''),
          t_width = width dataset,
          t_restfreq = float_repr (line_freq line) @ ''GHz'',
          t_threshold = thr,
          t_niter = 50000,
          t_common = initial_TCLEAN_COMMON_PARAMS\<rparr>]"
  using clean_line_run [of s base_path output_path dataset line E] assms
  unfolding run_shape_def
  by (elim disjE exE conjE)
     (auto simp: shape_defs dirty_args_def final_args_def prefix_of_def os_path_join_two
        binary64_2 elim: directory_events.elims)

text \<open>The two calls of the run of \<open>N2H+\<close> with a simulated RMS of 0.003, in full.\<close>

theorem two_deconvolution_calls_witness:
  "fst (clean_line (simulated_engines (Some [(''rms'', [binary64 (3 / 1000)])]))
          ''/Users/jea/AATau'' ''/Users/jea/AATau/aatau-alma-analysis/casa_images''
          dataset_2013_SG2 line_N2H initial_state) = Inr () \<and>
   globals_of initial_state = initial_globals \<and>
   tclean_calls (new_events (simulated_engines (Some [(''rms'', [binary64 (3 / 1000)])]))
          ''/Users/jea/AATau'' ''/Users/jea/AATau/aatau-alma-analysis/casa_images''
          dataset_2013_SG2 line_N2H initial_state) =
     [\<lparr>t_vis = ''/Users/jea/AATau/contsub_2013SG2/AA_Tau_2013_SG2.spw0.selfcal.ms.contsub_fit1'',
       t_imagename =
         ''/Users/jea/AATau/aatau-alma-analysis/casa_images/AATau_N2H+_contsub_clean0'',
       t_mask = None,
       t_width = ''0.3km/s'',
       t_restfreq = ''279.5117491GHz'',
       t_threshold = ''5mJy'',
       t_niter = 0,
       t_common = initial_TCLEAN_COMMON_PARAMS\<rparr>,
      \<lparr>t_vis = ''/Users/jea/AATau/contsub_2013SG2/AA_Tau_2013_SG2.spw0.selfcal.ms.contsub_fit1'',
       t_imagename =
         ''/Users/jea/AATau/aatau-alma-analysis/casa_images/AATau_N2H+_contsub_clean1'',
       t_mask = Some
         ''/Users/jea/AATau/aatau-alma-analysis/casa_images/AATau_N2H+_contsub_clean0.mask.image'',
       t_width = ''0.3km/s'',
       t_restfreq = ''279.5117491GHz'',
       t_threshold = ''6.0mJy'',
       t_niter = 50000,
       t_common = initial_TCLEAN_COMMON_PARAMS\<rparr>]"
proof -
  let ?E = "simulated_engines (Some [(''rms'', [binary64 (3 / 1000)])])"
  let ?b = "''/Users/jea/AATau''"
  let ?out = "''/Users/jea/AATau/aatau-alma-analysis/casa_images''"
  have g: "globals_of initial_state = initial_globals" by simp
  from two_deconvolution_calls [OF run_N2H_0003(1) [of ?b ?out] g] obtain f st thr where
    f: "format_spw (vis_template dataset_2013_SG2) (spw line_N2H) = Inr f" and
    st: "(Imstat (os_path_join ?out [''AATau_'' @ molecule line_N2H @ ''_contsub'']
                 @ ''_clean0.image'') ''0~30'', Returned_stats st)
        \<in> set (new_events ?E ?b ?out dataset_2013_SG2 line_N2H initial_state)" and
    thr: "threshold_str (Fin 2) st = Inr thr" and
    calls: "tclean_calls (new_events ?E ?b ?out dataset_2013_SG2 line_N2H initial_state) =
        [\<lparr>t_vis = os_path_join ?b [contsub_dir_of dataset_2013_SG2, f],
          t_imagename =
            os_path_join ?out [''AATau_'' @ molecule line_N2H @ ''_contsub''] @ ''_clean0'',
          t_mask = None,
          t_width = width dataset_2013_SG2,
          t_restfreq = float_repr (line_freq line_N2H) @ ''GHz'',
          t_threshold = ''5mJy'',
          t_niter = 0,
          t_common = initial_TCLEAN_COMMON_PARAMS\<rparr>,
         \<lparr>t_vis = os_path_join ?b [contsub_dir_of dataset_2013_SG2, f],
          t_imagename =
            os_path_join ?out [''AATau_'' @ molecule line_N2H @ ''_contsub''] @ ''_clean1'',
          t_mask =
            Some (os_path_join ?out [''AATau_'' @ molecule line_N2H @ ''_contsub'']
                    @ ''_clean0.mask.image''),
          t_width = width dataset_2013_SG2,
          t_restfreq = float_repr (line_freq line_N2H) @ ''GHz'',
          t_threshold = thr,
          t_niter = 50000,
          t_common = initial_TCLEAN_COMMON_PARAMS\<rparr>]"
    by blast
  from f have f': "f = ''AA_Tau_2013_SG2.spw0.selfcal.ms.contsub_fit1''"
    by (simp add: format_N2H)
  from st have "st = Some [(''rms'', [binary64 (3 / 1000)])]"
    unfolding run_N2H_0003(2)
    by (simp add: imaging_events_def dirty_call_def mask_call_def imstat_call_def final_call_def
        export_image_call_def export_mask_call_def)
  with thr have thr': "thr = ''6.0mJy''"
    using threshold_str_0003 by (simp add: binary64_2)
  have m: "molecule line_N2H = ''N2H+''" by (simp add: line_N2H_def)
  have d: "contsub_dir_of dataset_2013_SG2 = ''contsub_2013SG2''"
    "width dataset_2013_SG2 = ''0.3km/s''"
    by (simp_all add: contsub_dir_of_def remove_underscores_def dataset_2013_SG2_def)
  from calls show ?thesis
    unfolding f' thr' m d repr_N2H
    using run_N2H_0003(1) [of ?b ?out]
    by (simp add: os_path_join_def join2_def)
qed

text \<open>
  C8 (as amended). The output naming of \<open>clean_line\<close> is a function of the molecule
  name, the output directory and the base path: two runs that return, with the same
  molecule, output directory and base path, name the same image, mask and FITS paths,
  in the same order, whatever the engines, the dataset, the other fields of the line
  and the state are. (The image and mask paths lie under the output directory, the FITS
  files under the base path.) Every \<open>exportfits\<close> call asks to overwrite.
\<close>

theorem output_naming_is_pure:
  assumes "fst (clean_line E1 base_path output_path dataset1 line1 s1) = Inr ()"
    and "fst (clean_line E2 base_path output_path dataset2 line2 s2) = Inr ()"
    and "molecule line1 = molecule line2"
  shows "output_paths (new_events E1 base_path output_path dataset1 line1 s1) =
         output_paths (new_events E2 base_path output_path dataset2 line2 s2) \<and>
         (\<forall>img fits ov dr r.
            (Exportfits img fits ov dr, r)
              \<in> set (new_events E2 base_path output_path dataset2 line2 s2) \<longrightarrow> ov)"
  using completed_output_paths [OF assms(1)] completed_output_paths [OF assms(2)] assms(3)
    exports_overwrite [of _ _ _ _ _ E2 base_path output_path dataset2 line2 s2]
  by (auto simp: prefix_of_def)

text \<open>Two runs of the same line with different statistics name the same paths.\<close>

theorem output_naming_witness:
  "fst (clean_line (simulated_engines None) ''/Users/jea/AATau''
          ''/Users/jea/AATau/aatau-alma-analysis/casa_images''
          dataset_2013_SG2 line_N2H initial_state) = Inr () \<and>
   fst (clean_line (simulated_engines (Some [(''rms'', [binary64 (3 / 1000)])]))
          ''/Users/jea/AATau'' ''/Users/jea/AATau/aatau-alma-analysis/casa_images''
          dataset_2013_SG2 line_N2H initial_state) = Inr () \<and>
   molecule line_N2H = molecule line_N2H \<and>
   output_paths (new_events (simulated_engines None) ''/Users/jea/AATau''
          ''/Users/jea/AATau/aatau-alma-analysis/casa_images''
          dataset_2013_SG2 line_N2H initial_state) =
   output_paths (new_events (simulated_engines (Some [(''rms'', [binary64 (3 / 1000)])]))
          ''/Users/jea/AATau'' ''/Users/jea/AATau/aatau-alma-analysis/casa_images''
          dataset_2013_SG2 line_N2H initial_state)"
  using output_naming_is_pure [OF run_N2H_None(1) run_N2H_0003(1) refl,
      of "''/Users/jea/AATau''" "''/Users/jea/AATau/aatau-alma-analysis/casa_images''"]
    run_N2H_None(1) run_N2H_0003(1)
  by simp

text \<open>
  The claim as it was stated fails: two runs with the same molecule and the same output
  directory, but different base paths, export to different FITS paths.
\<close>

theorem output_naming_counterexample:
  "fst (clean_line (simulated_engines None) ''/Users/jea/AATau'' ''/data/casa_images''
          dataset_2013_SG2 line_N2H initial_state) = Inr () \<and>
   fst (clean_line (simulated_engines None) ''/Users/jea/archive'' ''/data/casa_images''
          dataset_2013_SG2 line_N2H initial_state) = Inr () \<and>
   output_paths (new_events (simulated_engines None) ''/Users/jea/AATau'' ''/data/casa_images''
          dataset_2013_SG2 line_N2H initial_state) \<noteq>
   output_paths (new_events (simulated_engines None) ''/Users/jea/archive'' ''/data/casa_images''
          dataset_2013_SG2 line_N2H initial_state)"
  unfolding run_N2H_None
  by (simp add: imaging_events_def dirty_call_def dirty_args_def mask_call_def imstat_call_def
      final_call_def final_args_def export_image_call_def export_mask_call_def path_eval
      line_N2H_def)

text \<open>
  C9. The shared configuration (\<open>MASK_PARAMS\<close>, \<open>TCLEAN_COMMON_PARAMS\<close>, the catalog
  \<open>DATASETS\<close> and the RMS constants, that is every global of the module) is never
  changed by \<open>clean_line\<close> or by the batch driver: whatever the engines do and however
  many lines are processed, the globals after \<open>clean_line\<close>, after the loops over lines
  and datasets, and after \<open>main\<close> are the globals before.
\<close>

theorem configuration_never_mutated:
  "globals_of (snd (clean_line E base_path output_path dataset line s)) = globals_of s \<and>
   globals_of (snd (for_lines E base_path output_path dataset ls s)) = globals_of s \<and>
   globals_of (snd (for_datasets E base_path output_path datasets s)) = globals_of s \<and>
   globals_of (snd (main E s)) = globals_of s"
  using clean_line_globals [of E base_path output_path dataset line s]
    for_lines_post [of E base_path output_path dataset ls s]
    for_datasets_post [of E base_path output_path datasets s]
    main_post [of E s]
  by (simp add: post_def)

text \<open>
  C10. If the statistics returned for the pass-0 cube are a dictionary with the key
  \<open>'rms'\<close> whose value is an empty sequence, \<open>clean_line\<close> does not fall back to
  10 mJy: the guard raises \<open>IndexError\<close>, which is the result of \<open>clean_line\<close>; the
  call of \<open>imstat\<close> is the last thing the line does, and no final pass is run (the only
  \<open>tclean\<close> call is the dirty one, without mask and with its own threshold).
\<close>

theorem empty_rms_raises_IndexError:
  assumes "(Imstat img chans, Returned_stats (Some d))
             \<in> set (new_events E base_path output_path dataset line s)"
    and "map_of d ''rms'' = Some []"
  shows "fst (clean_line E base_path output_path dataset line s) = Inl IndexError \<and>
         (\<forall>a r. (Tclean a, r) \<in> set (new_events E base_path output_path dataset line s)
                \<longrightarrow> t_mask a = None \<and> t_threshold a \<noteq> ''10mJy'') \<and>
         last (new_events E base_path output_path dataset line s) =
           (Imstat img chans, Returned_stats (Some d))"
proof -
  from assms(2) have t: "threshold_str m (Some d) = Inl IndexError" for m
    by (rule threshold_str_empty_rms)
  from clean_line_run [of s base_path output_path dataset line E] assms(1) t
  show ?thesis
    unfolding run_shape_def
    by (elim disjE exE conjE)
       (auto simp: dirty_call_def dirty_args_def mask_call_def imstat_call_def final_call_def
          final_args_def export_image_call_def export_mask_call_def imaging_events_def)
qed

text \<open>
  The run of the line \<open>N2H+\<close> against engines whose \<open>imstat\<close>
  returns \<open>{'rms': []}\<close>.
\<close>

theorem empty_rms_witness:
  "(Imstat ''/Users/jea/AATau/aatau-alma-analysis/casa_images/AATau_N2H+_contsub_clean0.image''
      ''0~30'', Returned_stats (Some [(''rms'', [])]))
     \<in> set (new_events (simulated_engines (Some [(''rms'', [])])) ''/Users/jea/AATau''
            ''/Users/jea/AATau/aatau-alma-analysis/casa_images'' dataset_2013_SG2 line_N2H
            initial_state) \<and>
   map_of [(''rms'', [])] ''rms'' = Some ([] :: pyfloat list) \<and>
   fst (clean_line (simulated_engines (Some [(''rms'', [])])) ''/Users/jea/AATau''
          ''/Users/jea/AATau/aatau-alma-analysis/casa_images'' dataset_2013_SG2 line_N2H
          initial_state) = Inl IndexError"
proof -
  have t: "threshold_str (RMS_MULTIPLIER (globals_of initial_state)) (Some [(''rms'', [])])
             = Inl IndexError"
    by (simp add: threshold_str_def)
  have ev: "(Imstat
       ''/Users/jea/AATau/aatau-alma-analysis/casa_images/AATau_N2H+_contsub_clean0.image''
       ''0~30'', Returned_stats (Some [(''rms'', [])]))
     \<in> set (new_events (simulated_engines (Some [(''rms'', [])])) ''/Users/jea/AATau''
            ''/Users/jea/AATau/aatau-alma-analysis/casa_images'' dataset_2013_SG2 line_N2H
            initial_state)"
    unfolding simulated_run_threshold_raises(2) [OF format_N2H t]
    by (simp add: imstat_call_def prefix_of_def os_path_join_def join2_def line_N2H_def)
  have m: "map_of [(''rms'', [])] ''rms'' = Some ([] :: pyfloat list)" by simp
  from empty_rms_raises_IndexError [OF ev m] ev m show ?thesis by blast
qed

end
